theory Spec2Isabelle
  imports Complex_Main "HOL-Library.Char_ord" "HOL-Library.List_Lexorder"
    "HOL-Library.Product_Lexorder"
begin

section \<open>The txstatsd message processor\<close>

text \<open>
  A shallow embedding of \<^verbatim>\<open>txstatsd/server/processor.py\<close> (Python 2): the key
  normalisation, the message parser of \<^verbatim>\<open>BaseMessageProcessor\<close>, the accumulators of
  \<^verbatim>\<open>MessageProcessor\<close> and its flush.

  Conventions of the model.
  \<^item> A Python \<^verbatim>\<open>str\<close> is a \<open>string\<close> (a list of bytes).
  \<^item> A Python number is modelled by its exact value: a \<^verbatim>\<open>float\<close> is a \<open>real\<close>, so
    rounding, infinities and NaN are outside the model; an \<^verbatim>\<open>int\<close> that only ever
    meets floats (the initial \<^verbatim>\<open>0\<close> of a counter) is the \<open>real\<close> of the same value. The
    flush interval, the percent threshold, lengths, indices and timestamps are \<open>int\<close>,
    and \<^verbatim>\<open>/\<close> between two of them is Python 2's floor division.
  \<^item> A \<^verbatim>\<open>dict\<close> is an association list; the order of the list stands for the
    iteration order of the dict, about which nothing is proved.
  \<^item> An exception is a value: every operation returns an \<open>outcome\<close> next to the state
    it leaves behind, since Python keeps the mutations made before a raise.
  \<^item> A generator is run to its end: it returns what it yielded, how it ended and the
    state.
  \<^item> \<^verbatim>\<open>time_function\<close> is the sequence of readings the processor obtains, indexed by
    the number of calls made so far.
\<close>

subsection \<open>Strings and regular expressions\<close>

text \<open>The class \<^verbatim>\<open>\s\<close> of a byte pattern, which is also what \<^verbatim>\<open>str.strip\<close> removes.\<close>

definition is_space :: "char \<Rightarrow> bool" where
  "is_space c = (c \<in> set [CHR '' '', CHR 0x09, CHR 0x0A, CHR 0x0B, CHR 0x0C, CHR 0x0D])"

definition is_slash :: "char \<Rightarrow> bool" where
  "is_slash c = (c = CHR ''/'')"

text \<open>The class \<^verbatim>\<open>\d\<close> of a byte pattern.\<close>

definition is_digit :: "char \<Rightarrow> bool" where
  "is_digit c = (c \<in> set ''0123456789'')"

text \<open>The complement of \<^verbatim>\<open>NON_ALNUM = [^a-zA-Z_\-0-9\.]\<close>.\<close>

definition is_key_char :: "char \<Rightarrow> bool" where
  "is_key_char c =
     (c \<in> set ''abcdefghijklmnopqrstuvwxyzABCDEFGHIJKLMNOPQRSTUVWXYZ_-0123456789.'')"

text \<open>
  \<^verbatim>\<open>re.compile("<class>+").sub(r, s)\<close>: every maximal run of characters of the class is
  replaced by \<open>r\<close>, from left to right.
\<close>

function re_sub_runs :: "(char \<Rightarrow> bool) \<Rightarrow> string \<Rightarrow> string \<Rightarrow> string" where
  "re_sub_runs p r [] = []"
| "re_sub_runs p r (c # cs) =
     (if p c then r @ re_sub_runs p r (dropWhile p cs) else c # re_sub_runs p r cs)"
  by pat_completeness auto
termination
  by (relation "measure (\<lambda>(p, r, s). length s)")
    (auto simp: less_Suc_eq_le length_dropWhile_le)

text \<open>
  \<^verbatim>\<open>
  def normalize_key(key):
      key = SPACES.sub("_", key)
      key = SLASHES.sub("-", key)
      key = NON_ALNUM.sub("", key)
      return key
  \<close>
\<close>

definition normalize_key :: "string \<Rightarrow> string" where
  "normalize_key key =
     (let key = re_sub_runs is_space ''_'' key;
          key = re_sub_runs is_slash ''-'' key;
          key = filter is_key_char key
      in key)"

text \<open>
  The normalisation as the specification words it, in one pass over the key: a run of
  whitespace becomes one underscore, a run of slashes one hyphen, and any other
  character outside \<^verbatim>\<open>[A-Za-z0-9._-]\<close> is dropped.
\<close>

function normalize_spec :: "string \<Rightarrow> string" where
  "normalize_spec [] = []"
| "normalize_spec (c # cs) =
     (if is_space c then CHR ''_'' # normalize_spec (dropWhile is_space cs)
      else if is_slash c then CHR ''-'' # normalize_spec (dropWhile is_slash cs)
      else if is_key_char c then c # normalize_spec cs
      else normalize_spec cs)"
  by pat_completeness auto
termination
  by (relation "measure length") (auto simp: less_Suc_eq_le length_dropWhile_le)

text \<open>\<^verbatim>\<open>s.strip()\<close>.\<close>

definition py_strip :: "string \<Rightarrow> string" where
  "py_strip s = rev (dropWhile is_space (rev (dropWhile is_space s)))"

text \<open>\<^verbatim>\<open>s.split(sep)\<close> for a separator of one character; never the empty list.\<close>

fun py_split :: "char \<Rightarrow> string \<Rightarrow> string list" where
  "py_split sep [] = [[]]"
| "py_split sep (c # cs) =
     (if c = sep then [] # py_split sep cs
      else (case py_split sep cs of
              [] \<Rightarrow> [[c]]
            | w # ws \<Rightarrow> (c # w) # ws))"

text \<open>\<^verbatim>\<open>s.split(sep, 1)\<close>: at most one split, at the first separator.\<close>

definition py_split1 :: "char \<Rightarrow> string \<Rightarrow> string list" where
  "py_split1 sep s =
     (if sep \<in> set s
      then [takeWhile (\<lambda>c. c \<noteq> sep) s, tl (dropWhile (\<lambda>c. c \<noteq> sep) s)]
      else [s])"

text \<open>
  \<^verbatim>\<open>RATE = re.compile("^@([\d\.]+)")\<close>; \<open>rate_match s\<close> is \<^verbatim>\<open>RATE.match(s)\<close>, with
  \<open>Some\<close> of group 1 when the pattern matches a prefix of \<open>s\<close>.
\<close>

definition rate_match :: "string \<Rightarrow> string option" where
  "rate_match s =
     (case s of
        [] \<Rightarrow> None
      | c # cs \<Rightarrow>
          (let g = takeWhile (\<lambda>d. is_digit d \<or> d = CHR ''.'') cs
           in if c = CHR ''@'' \<and> g \<noteq> [] then Some g else None))"

subsection \<open>Numbers\<close>

datatype py_error = ValueError | ZeroDivisionError | IndexError | KeyError | UnboundLocalError

datatype outcome = Returned | Raised py_error

definition digit_val :: "char \<Rightarrow> nat" where
  "digit_val c = of_char c - 48"

definition nat_of_digits :: "string \<Rightarrow> nat" where
  "nat_of_digits ds = foldl (\<lambda>n c. 10 * n + digit_val c) 0 ds"

text \<open>An optional sign in front of the rest of a literal.\<close>

definition split_sign :: "string \<Rightarrow> bool \<times> string" where
  "split_sign s =
     (case s of
        [] \<Rightarrow> (False, s)
      | c # r \<Rightarrow>
          if c = CHR ''-'' then (True, r) else if c = CHR ''+'' then (False, r) else (False, s))"

text \<open>The exponent part of a float literal: nothing, or \<^verbatim>\<open>e\<close>, a sign and digits.\<close>

definition py_exponent :: "string \<Rightarrow> int option" where
  "py_exponent u =
     (case u of
        [] \<Rightarrow> Some 0
      | c # r \<Rightarrow>
          (let (neg, d) = split_sign r
           in if (c = CHR ''e'' \<or> c = CHR ''E'') \<and> d \<noteq> [] \<and> list_all is_digit d
              then Some (if neg then - int (nat_of_digits d) else int (nat_of_digits d))
              else None))"

text \<open>
  The builtin \<^verbatim>\<open>float(s)\<close> on a string: \<open>None\<close> is \<^verbatim>\<open>ValueError\<close>. The literals are
  the decimal ones, \<^verbatim>\<open>[ws][sign](digits[.[digits]] | .digits)[(e|E)[sign]digits][ws]\<close>;
  the literals \<^verbatim>\<open>inf\<close> and \<^verbatim>\<open>nan\<close>, whose values are no rationals, are not modelled.
\<close>

definition py_float :: "string \<Rightarrow> real option" where
  "py_float s =
     (let (neg, u) = split_sign (py_strip s);
          ip = takeWhile is_digit u;
          u1 = dropWhile is_digit u;
          (fp, u2) = (case u1 of
                        [] \<Rightarrow> ([], u1)
                      | c # r \<Rightarrow>
                          if c = CHR ''.'' then (takeWhile is_digit r, dropWhile is_digit r)
                          else ([], u1));
          mant = (of_nat (nat_of_digits (ip @ fp)) :: real) / 10 ^ length fp
      in if ip = [] \<and> fp = [] then None
         else (case py_exponent u2 of
                 None \<Rightarrow> None
               | Some e \<Rightarrow>
                   Some ((if neg then - mant else mant)
                         * (if 0 \<le> e then 10 ^ nat e else 1 / 10 ^ nat (- e)))))"

text \<open>Python 2's \<^verbatim>\<open>int(round(x))\<close>: halves are rounded away from zero.\<close>

definition py_round :: "real \<Rightarrow> int" where
  "py_round x = (if 0 \<le> x then \<lfloor>x + 1 / 2\<rfloor> else - \<lfloor>- x + 1 / 2\<rfloor>)"

text \<open>\<^verbatim>\<open>int(x)\<close> of a float: truncation towards zero.\<close>

definition py_int :: "real \<Rightarrow> int" where
  "py_int x = (if 0 \<le> x then \<lfloor>x\<rfloor> else \<lceil>x\<rceil>)"

text \<open>\<^verbatim>\<open>"%s" % n\<close> for an integer.\<close>

function string_of_nat :: "nat \<Rightarrow> string" where
  "string_of_nat n =
     (if n < 10 then [''0123456789'' ! n]
      else string_of_nat (n div 10) @ [''0123456789'' ! (n mod 10)])"
  by pat_completeness auto
termination
  by (relation "measure id") auto

definition string_of_int :: "int \<Rightarrow> string" where
  "string_of_int i = (if i < 0 then CHR ''-'' # string_of_nat (nat (- i)) else string_of_nat (nat i))"

text \<open>\<^verbatim>\<open>xs[:i]\<close>: a negative \<open>i\<close> counts from the end.\<close>

definition py_slice_to :: "'a list \<Rightarrow> int \<Rightarrow> 'a list" where
  "py_slice_to xs i = (if 0 \<le> i then take (nat i) xs else take (nat (int (length xs) + i)) xs)"

subsection \<open>Dictionaries\<close>

type_synonym 'v dict = "(string \<times> 'v) list"

definition dict_has :: "string \<Rightarrow> 'v dict \<Rightarrow> bool" where
  "dict_has k d = (k \<in> set (map fst d))"

definition dict_get :: "'v dict \<Rightarrow> string \<Rightarrow> 'v option" where
  "dict_get d k = map_of d k"

text \<open>\<^verbatim>\<open>d[k] = v\<close>\<close>

definition dict_set :: "string \<Rightarrow> 'v \<Rightarrow> 'v dict \<Rightarrow> 'v dict" where
  "dict_set k v d =
     (if dict_has k d then map (\<lambda>(k', v'). if k' = k then (k', v) else (k', v')) d
      else d @ [(k, v)])"

text \<open>\<^verbatim>\<open>d.setdefault(k, v)\<close>, for its effect on the dict.\<close>

definition setdefault :: "string \<Rightarrow> 'v \<Rightarrow> 'v dict \<Rightarrow> 'v dict" where
  "setdefault k v d = (if dict_has k d then d else d @ [(k, v)])"

subsection \<open>The processor and its collaborators\<close>

text \<open>
  The reporter classes (\<^verbatim>\<open>MeterMetricReporter\<close>) and the plugins are not part of the
  sources at hand: their states are opaque and their methods are parameters of the
  model. They are taken to touch their own state only, and not to raise.
\<close>

typedecl meter
typedecl plugin_factory
typedecl plugin_metric

text \<open>What a flush yields: \<^verbatim>\<open>(name, value, timestamp)\<close>.\<close>

type_synonym sample = "string \<times> real \<times> int"

record externals =
  meter_new :: "string \<Rightarrow> string \<Rightarrow> meter"
  meter_mark :: "meter \<Rightarrow> real \<Rightarrow> meter"
  meter_report :: "meter \<Rightarrow> int \<Rightarrow> sample list"
  factory_metric_type :: "plugin_factory \<Rightarrow> string"
  factory_name :: "plugin_factory \<Rightarrow> string"
  build_metric :: "plugin_factory \<Rightarrow> string \<Rightarrow> string \<Rightarrow> plugin_metric"
  plugin_process :: "plugin_metric \<Rightarrow> string list \<Rightarrow> plugin_metric"
  plugin_flush :: "plugin_metric \<Rightarrow> int \<Rightarrow> int \<Rightarrow> sample list \<times> plugin_metric"

text \<open>The calls of \<^verbatim>\<open>log.msg\<close>, by their arguments.\<close>

datatype log_entry =
    Bad_line string
  | Flushed int string real
  | Processing int string real

record processor =
  time_function :: "nat \<Rightarrow> real"
  time_calls :: nat
  legacy_namespace :: bool
  delete_idle_counters :: bool
  lightweight_mode :: bool
  stats_prefix :: string
  internal_metrics_prefix :: string
  count_prefix :: string
  timer_prefix :: string
  gauge_prefix :: string
  process_timings :: "real dict"
  by_type :: "int dict"
  last_flush_duration :: real
  last_process_duration :: real
  timer_metrics :: "real list dict"
  counter_metrics :: "real dict"
  gauge_metrics :: "real dict"
  meter_metrics :: "meter dict"
  plugins :: "plugin_factory dict"
  plugin_metrics :: "plugin_metric dict"
  log :: "log_entry list"

text \<open>
  \<^verbatim>\<open>MessageProcessor.__init__\<close>; \<open>ps\<close> is the list of plugins (empty for the default
  \<^verbatim>\<open>None\<close>), the flags are the truth values of the arguments.
\<close>

definition init ::
  "externals \<Rightarrow> (nat \<Rightarrow> real) \<Rightarrow> plugin_factory list \<Rightarrow> bool \<Rightarrow> string \<Rightarrow> string \<Rightarrow> bool \<Rightarrow> bool
   \<Rightarrow> processor" where
  "init X clock ps legacy message_prefix internal_prefix delete_idle lightweight =
     \<lparr> time_function = clock,
       time_calls = 0,
       legacy_namespace = legacy,
       delete_idle_counters = delete_idle,
       lightweight_mode = lightweight,
       stats_prefix = (if \<not> legacy then message_prefix @ ''.'' else ''stats.''),
       internal_metrics_prefix = (if \<not> legacy then internal_prefix else ''statsd.''),
       count_prefix =
         (if \<not> legacy then (message_prefix @ ''.'') @ ''counters.'' else ''stats_counts.''),
       timer_prefix =
         (if \<not> legacy then (message_prefix @ ''.'') @ ''timers.'' else ''stats.'' @ ''timers.''),
       gauge_prefix =
         (if \<not> legacy then (message_prefix @ ''.'') @ ''gauges.'' else ''stats.'' @ ''gauge.''),
       process_timings = [],
       by_type = [],
       last_flush_duration = 0,
       last_process_duration = 0,
       timer_metrics = [],
       counter_metrics = [],
       gauge_metrics = [],
       meter_metrics = [],
       plugins = foldl (\<lambda>d p. dict_set (factory_metric_type X p) p d) [] ps,
       plugin_metrics = [],
       log = [] \<rparr>"

text \<open>The processor built with every default but the clock, as \<^verbatim>\<open>MessageProcessor()\<close>.\<close>

definition default_processor :: "externals \<Rightarrow> (nat \<Rightarrow> real) \<Rightarrow> processor" where
  "default_processor X clock = init X clock [] True ''stats'' ''statsd.'' False False"

text \<open>One call of \<^verbatim>\<open>self.time_function()\<close>.\<close>

definition read_clock :: "processor \<Rightarrow> real \<times> processor" where
  "read_clock st = (time_function st (time_calls st), st\<lparr>time_calls := Suc (time_calls st)\<rparr>)"

text \<open>
  \<^verbatim>\<open>
  def fail(self, message):
      log.msg("Bad line: %r" % message, logLevel=logging.DEBUG)
  \<close>
\<close>

definition fail :: "processor \<Rightarrow> string \<Rightarrow> outcome \<times> processor" where
  "fail st message = (Returned, st\<lparr>log := log st @ [Bad_line message]\<rparr>)"

subsection \<open>Accumulating\<close>

text \<open>
  \<^verbatim>\<open>
  def compose_timer_metric(self, key, duration):
      if key not in self.timer_metrics:
          self.timer_metrics[key] = []
      self.timer_metrics[key].append(duration)
  \<close>
\<close>

definition compose_timer_metric :: "processor \<Rightarrow> string \<Rightarrow> real \<Rightarrow> outcome \<times> processor" where
  "compose_timer_metric st key duration =
     (let tm = (if \<not> dict_has key (timer_metrics st) then dict_set key [] (timer_metrics st)
                else timer_metrics st)
      in case dict_get tm key of
           None \<Rightarrow> (Raised KeyError, st\<lparr>timer_metrics := tm\<rparr>)
         | Some ds \<Rightarrow> (Returned, st\<lparr>timer_metrics := dict_set key (ds @ [duration]) tm\<rparr>))"

text \<open>
  \<^verbatim>\<open>
  def process_timer_metric(self, key, duration, message):
      try:
          duration = float(duration)
      except (TypeError, ValueError):
          return self.fail(message)
      self.compose_timer_metric(key, duration)
  \<close>
\<close>

definition process_timer_metric ::
  "processor \<Rightarrow> string \<Rightarrow> string \<Rightarrow> string \<Rightarrow> outcome \<times> processor" where
  "process_timer_metric st key duration message =
     (case py_float duration of
        None \<Rightarrow> fail st message
      | Some d \<Rightarrow> compose_timer_metric st key d)"

text \<open>The \<^verbatim>\<open>rate\<close> handed to \<^verbatim>\<open>compose_counter_metric\<close>: the integer 1 or group 1 of the match.\<close>

datatype rate = Rate_int int | Rate_str string

definition float_of_rate :: "rate \<Rightarrow> real option" where
  "float_of_rate r = (case r of Rate_int i \<Rightarrow> Some (of_int i) | Rate_str s \<Rightarrow> py_float s)"

text \<open>\<^verbatim>\<open>value * (1 / float(rate))\<close>\<close>

definition scaled_value :: "real \<Rightarrow> rate \<Rightarrow> py_error + real" where
  "scaled_value v r =
     (case float_of_rate r of
        None \<Rightarrow> Inl ValueError
      | Some q \<Rightarrow> if q = 0 then Inl ZeroDivisionError else Inr (v * (1 / q)))"

text \<open>
  \<^verbatim>\<open>
  def compose_counter_metric(self, key, value, rate):
      if key not in self.counter_metrics:
          self.counter_metrics[key] = 0
      try:
          self.counter_metrics[key] += value * (1 / float(rate))
      except KeyError: # in case a flush just cleared the keys
          self.counter_metrics[key] = value * (1 / float(rate))
  \<close>
  The entry is created before the increment is evaluated, so it stays when the
  increment raises.
\<close>

definition compose_counter_metric ::
  "processor \<Rightarrow> string \<Rightarrow> real \<Rightarrow> rate \<Rightarrow> outcome \<times> processor" where
  "compose_counter_metric st key v r =
     (let cm = (if \<not> dict_has key (counter_metrics st) then dict_set key 0 (counter_metrics st)
                else counter_metrics st);
          st1 = st\<lparr>counter_metrics := cm\<rparr>
      in case dict_get cm key of
           Some cur \<Rightarrow>
             (case scaled_value v r of
                Inl e \<Rightarrow> (Raised e, st1)
              | Inr x \<Rightarrow> (Returned, st1\<lparr>counter_metrics := dict_set key (cur + x) cm\<rparr>))
         | None \<Rightarrow>
             (case scaled_value v r of
                Inl e \<Rightarrow> (Raised e, st1)
              | Inr x \<Rightarrow> (Returned, st1\<lparr>counter_metrics := dict_set key x cm\<rparr>)))"

text \<open>
  \<^verbatim>\<open>
  def process_counter_metric(self, key, composite, message):
      try:
          value = float(composite[0])
      except (TypeError, ValueError):
          return self.fail(message)
      rate = 1
      if len(composite) == 3:
          match = RATE.match(composite[2])
          if match is None:
              return self.fail(message)
          rate = match.group(1)
      self.compose_counter_metric(key, value, rate)
  \<close>
\<close>

definition process_counter_metric ::
  "processor \<Rightarrow> string \<Rightarrow> string list \<Rightarrow> string \<Rightarrow> outcome \<times> processor" where
  "process_counter_metric st key composite message =
     (case composite of
        [] \<Rightarrow> (Raised IndexError, st)
      | c0 # _ \<Rightarrow>
          (case py_float c0 of
             None \<Rightarrow> fail st message
           | Some v \<Rightarrow>
               if length composite = 3
               then (case rate_match (composite ! 2) of
                       None \<Rightarrow> fail st message
                     | Some g \<Rightarrow> compose_counter_metric st key v (Rate_str g))
               else compose_counter_metric st key v (Rate_int 1)))"

text \<open>
  \<^verbatim>\<open>
  def compose_gauge_metric(self, key, value):
      self.gauge_metrics[key] = value
  \<close>
\<close>

definition compose_gauge_metric :: "processor \<Rightarrow> string \<Rightarrow> real \<Rightarrow> outcome \<times> processor" where
  "compose_gauge_metric st key v = (Returned, st\<lparr>gauge_metrics := dict_set key v (gauge_metrics st)\<rparr>)"

text \<open>
  \<^verbatim>\<open>
  def process_gauge_metric(self, key, composite, message):
      values = composite.split(":")
      if not len(values) == 1:
          return self.fail(message)
      try:
          value = float(values[0])
      except (TypeError, ValueError):
          self.fail(message)
      self.compose_gauge_metric(key, value)
  \<close>
  The handler does not return: after \<^verbatim>\<open>self.fail\<close> the call of
  \<^verbatim>\<open>compose_gauge_metric\<close> reads the local \<^verbatim>\<open>value\<close>, which was never bound.
\<close>

definition process_gauge_metric ::
  "processor \<Rightarrow> string \<Rightarrow> string \<Rightarrow> string \<Rightarrow> outcome \<times> processor" where
  "process_gauge_metric st key composite message =
     (let values = py_split CHR '':'' composite
      in if \<not> length values = 1 then fail st message
         else (case py_float (values ! 0) of
                 None \<Rightarrow> (Raised UnboundLocalError, snd (fail st message))
               | Some v \<Rightarrow> compose_gauge_metric st key v))"

text \<open>
  \<^verbatim>\<open>
  def compose_meter_metric(self, key, value):
      if not key in self.meter_metrics:
          metric = MeterMetricReporter(key, self.time_function,
                                       prefix="stats.meter")
          self.meter_metrics[key] = metric
      self.meter_metrics[key].mark(value)
  \<close>
\<close>

definition compose_meter_metric ::
  "externals \<Rightarrow> processor \<Rightarrow> string \<Rightarrow> real \<Rightarrow> outcome \<times> processor" where
  "compose_meter_metric X st key v =
     (let mm = (if \<not> dict_has key (meter_metrics st)
                then dict_set key (meter_new X key ''stats.meter'') (meter_metrics st)
                else meter_metrics st)
      in case dict_get mm key of
           None \<Rightarrow> (Raised KeyError, st\<lparr>meter_metrics := mm\<rparr>)
         | Some m \<Rightarrow> (Returned, st\<lparr>meter_metrics := dict_set key (meter_mark X m v) mm\<rparr>))"

text \<open>
  \<^verbatim>\<open>
  def process_meter_metric(self, key, composite, message):
      values = composite.split(":")
      if not len(values) == 1:
          return self.fail(message)
      try:
          value = float(values[0])
      except (TypeError, ValueError):
          self.fail(message)
      self.compose_meter_metric(key, value)
  \<close>
\<close>

definition process_meter_metric ::
  "externals \<Rightarrow> processor \<Rightarrow> string \<Rightarrow> string \<Rightarrow> string \<Rightarrow> outcome \<times> processor" where
  "process_meter_metric X st key composite message =
     (let values = py_split CHR '':'' composite
      in if \<not> length values = 1 then fail st message
         else (case py_float (values ! 0) of
                 None \<Rightarrow> (Raised UnboundLocalError, snd (fail st message))
               | Some v \<Rightarrow> compose_meter_metric X st key v))"

text \<open>
  \<^verbatim>\<open>
  def get_message_prefix(self, kind):
      return "stats." + kind
  \<close>
\<close>

definition get_message_prefix :: "string \<Rightarrow> string" where
  "get_message_prefix kind = ''stats.'' @ kind"

text \<open>
  \<^verbatim>\<open>
  def process_plugin_metric(self, metric_type, key, items, message):
      if not key in self.plugin_metrics:
          factory = self.plugins[metric_type]
          metric = factory.build_metric(
              self.get_message_prefix(factory.name),
              name=key, wall_time_func=self.time_function)
          self.plugin_metrics[key] = metric
      self.plugin_metrics[key].process(items)
  \<close>
\<close>

definition process_plugin_metric ::
  "externals \<Rightarrow> processor \<Rightarrow> string \<Rightarrow> string \<Rightarrow> string list \<Rightarrow> string \<Rightarrow> outcome \<times> processor"
  where
  "process_plugin_metric X st metric_type key items message =
     (if \<not> dict_has key (plugin_metrics st)
      then (case dict_get (plugins st) metric_type of
              None \<Rightarrow> (Raised KeyError, st)
            | Some factory \<Rightarrow>
                (let metric = build_metric X factory (get_message_prefix (factory_name X factory)) key
                 in (Returned,
                     st\<lparr>plugin_metrics :=
                          dict_set key (plugin_process X metric items) (plugin_metrics st)\<rparr>)))
      else (case dict_get (plugin_metrics st) key of
              None \<Rightarrow> (Raised KeyError, st)
            | Some metric \<Rightarrow>
                (Returned,
                 st\<lparr>plugin_metrics :=
                      dict_set key (plugin_process X metric items) (plugin_metrics st)\<rparr>)))"

text \<open>
  The tail of \<^verbatim>\<open>process_message\<close>, reached when the handler of the type has returned:
  \<^verbatim>\<open>
      self.process_timings.setdefault(metric_type, 0)
      self.process_timings[metric_type] += self.time_function() - start
      self.by_type.setdefault(metric_type, 0)
      self.by_type[metric_type] += 1
  \<close>
\<close>

definition record_processing :: "processor \<Rightarrow> string \<Rightarrow> real \<Rightarrow> outcome \<times> processor" where
  "record_processing st metric_type start =
     (let st1 = st\<lparr>process_timings := setdefault metric_type 0 (process_timings st)\<rparr>
      in case dict_get (process_timings st1) metric_type of
           None \<Rightarrow> (Raised KeyError, st1)
         | Some t \<Rightarrow>
             (let (now, st2) = read_clock st1;
                  st3 = st2\<lparr>process_timings :=
                              dict_set metric_type (t + (now - start)) (process_timings st2)\<rparr>;
                  st4 = st3\<lparr>by_type := setdefault metric_type 0 (by_type st3)\<rparr>
              in case dict_get (by_type st4) metric_type of
                   None \<Rightarrow> (Raised KeyError, st4)
                 | Some n \<Rightarrow>
                     (Returned, st4\<lparr>by_type := dict_set metric_type (n + 1) (by_type st4)\<rparr>)))"

text \<open>
  \<^verbatim>\<open>
  def process_message(self, message, metric_type, key, fields):
      start = self.time_function()
      if metric_type == "c":
          self.process_counter_metric(key, fields, message)
      elif metric_type == "ms":
          self.process_timer_metric(key, fields[0], message)
      elif metric_type == "g":
          self.process_gauge_metric(key, fields[0], message)
      elif metric_type == "m":
          self.process_meter_metric(key, fields[0], message)
      elif metric_type in self.plugins:
          self.process_plugin_metric(metric_type, key, fields, message)
      else:
          return self.fail(message)
      ...
  \<close>
  \<open>handle\<close> is the chain of branches: \<open>None\<close> for the last one, which leaves the
  method at once.
\<close>

definition field0 ::
  "processor \<Rightarrow> string list \<Rightarrow> (string \<Rightarrow> outcome \<times> processor) \<Rightarrow> outcome \<times> processor" where
  "field0 st flds f = (case flds of [] \<Rightarrow> (Raised IndexError, st) | f0 # _ \<Rightarrow> f f0)"

definition handle ::
  "externals \<Rightarrow> processor \<Rightarrow> string \<Rightarrow> string \<Rightarrow> string \<Rightarrow> string list
   \<Rightarrow> (outcome \<times> processor) option" where
  "handle X st message metric_type key flds =
     (if metric_type = ''c'' then Some (process_counter_metric st key flds message)
      else if metric_type = ''ms''
        then Some (field0 st flds (\<lambda>f0. process_timer_metric st key f0 message))
      else if metric_type = ''g''
        then Some (field0 st flds (\<lambda>f0. process_gauge_metric st key f0 message))
      else if metric_type = ''m''
        then Some (field0 st flds (\<lambda>f0. process_meter_metric X st key f0 message))
      else if dict_has metric_type (plugins st)
        then Some (process_plugin_metric X st metric_type key flds message)
      else None)"

definition process_message ::
  "externals \<Rightarrow> processor \<Rightarrow> string \<Rightarrow> string \<Rightarrow> string \<Rightarrow> string list \<Rightarrow> outcome \<times> processor"
  where
  "process_message X st message metric_type key flds =
     (let (start, st0) = read_clock st
      in case handle X st0 message metric_type key flds of
           None \<Rightarrow> fail st0 message
         | Some (Raised e, st1) \<Rightarrow> (Raised e, st1)
         | Some (Returned, st1) \<Rightarrow> record_processing st1 metric_type start)"

text \<open>
  \<^verbatim>\<open>
  def process(self, message):
      if not ":" in message:
          return self.fail(message)
      key, data = message.strip().split(":", 1)
      if not "|" in data:
          return self.fail(message)
      fields = data.split("|")
      if len(fields) < 2 or len(fields) > 3:
          return self.fail(message)
      key = normalize_key(key)
      metric_type = fields[1]
      return self.process_message(message, metric_type, key, fields)
  \<close>
\<close>

definition process :: "externals \<Rightarrow> processor \<Rightarrow> string \<Rightarrow> outcome \<times> processor" where
  "process X st message =
     (if \<not> CHR '':'' \<in> set message then fail st message
      else (case py_split1 CHR '':'' (py_strip message) of
              [key, data] \<Rightarrow>
                if \<not> CHR ''|'' \<in> set data then fail st message
                else (let flds = py_split CHR ''|'' data
                      in if length flds < 2 \<or> length flds > 3 then fail st message
                         else (let key = normalize_key key;
                                   metric_type = flds ! 1
                               in process_message X st message metric_type key flds))
            | _ \<Rightarrow> (Raised ValueError, st)))"

text \<open>Messages one after the other, up to the first that raises.\<close>

fun process_all :: "externals \<Rightarrow> processor \<Rightarrow> string list \<Rightarrow> outcome \<times> processor" where
  "process_all X st [] = (Returned, st)"
| "process_all X st (m # ms) =
     (case process X st m of
        (Raised e, st1) \<Rightarrow> (Raised e, st1)
      | (Returned, st1) \<Rightarrow> process_all X st1 ms)"

subsection \<open>Flushing\<close>

text \<open>
  \<^verbatim>\<open>
  def flush_counter_metrics(self, interval, timestamp):
      for key, count in self.counter_metrics.iteritems():
          self.counter_metrics[key] = 0

          value = count / interval
          if not self.legacy_namespace:
              output = ((self.count_prefix + key + ".rate", value, timestamp),
                        (self.count_prefix + key + ".count", count, timestamp))
          else:
              output = ((self.stats_prefix + key, value, timestamp),
                        (self.count_prefix + key, count, timestamp))
          if self.lightweight_mode:
              yield output[1:2]
          else:
              yield output
      # clear all keys on each flush to avoid processing zeros.
      if self.delete_idle_counters:
          self.counter_metrics = {}
  \<close>
  \<open>counter_lines\<close> is what one iteration yields, \<open>counter_loop\<close> the \<^verbatim>\<open>for\<close> loop
  over the items still to visit.
\<close>

definition counter_lines :: "processor \<Rightarrow> int \<Rightarrow> int \<Rightarrow> string \<Rightarrow> real \<Rightarrow> sample list" where
  "counter_lines st interval timestamp key count =
     (let v = count / of_int interval;
          output =
            (if \<not> legacy_namespace st
             then [(count_prefix st @ key @ ''.rate'', v, timestamp),
                   (count_prefix st @ key @ ''.count'', count, timestamp)]
             else [(stats_prefix st @ key, v, timestamp),
                   (count_prefix st @ key, count, timestamp)])
      in if lightweight_mode st then take 1 (drop 1 output) else output)"

fun counter_loop ::
  "processor \<Rightarrow> int \<Rightarrow> int \<Rightarrow> real dict \<Rightarrow> sample list list \<times> outcome \<times> processor" where
  "counter_loop st interval timestamp [] = ([], Returned, st)"
| "counter_loop st interval timestamp ((key, count) # items) =
     (let st1 = st\<lparr>counter_metrics := dict_set key 0 (counter_metrics st)\<rparr>
      in if interval = 0 then ([], Raised ZeroDivisionError, st1)
         else (let y = counter_lines st1 interval timestamp key count;
                   (ys, oc, st2) = counter_loop st1 interval timestamp items
               in (y # ys, oc, st2)))"

definition flush_counter_metrics ::
  "processor \<Rightarrow> int \<Rightarrow> int \<Rightarrow> sample list list \<times> outcome \<times> processor" where
  "flush_counter_metrics st interval timestamp =
     (let (ys, oc, st1) = counter_loop st interval timestamp (counter_metrics st)
      in case oc of
           Raised e \<Rightarrow> (ys, Raised e, st1)
         | Returned \<Rightarrow>
             (ys, Returned,
              if delete_idle_counters st1 then st1\<lparr>counter_metrics := []\<rparr> else st1))"

text \<open>
  The statistics of one key of \<^verbatim>\<open>flush_timer_metrics\<close>, from its samples:
  \<^verbatim>\<open>
              timers.sort()
              lower = timers[0]
              upper = timers[-1]
              count = len(timers)

              mean = lower
              threshold_upper = upper

              if count > 1:
                  index = count - int(round(threshold_value * count))
                  timers = timers[:index]
                  threshold_upper = timers[-1]
                  mean = sum(timers) / index
  \<close>
  with \<^verbatim>\<open>threshold_value = ((100 - percent) / 100.0)\<close>.
\<close>

record timer_stats =
  mean :: real
  upper :: real
  threshold_upper :: real
  lower :: real
  count :: int

definition trim_index :: "int \<Rightarrow> int \<Rightarrow> int" where
  "trim_index percent n = n - py_round ((100 - of_int percent) / 100 * of_int n)"

definition compute_timer_stats :: "int \<Rightarrow> real list \<Rightarrow> py_error + timer_stats" where
  "compute_timer_stats percent timers0 =
     (let timers = sort timers0
      in case timers of
           [] \<Rightarrow> Inl IndexError
         | t0 # _ \<Rightarrow>
             (let n = int (length timers)
              in if n > 1
                 then (let index = trim_index percent n;
                           trimmed = py_slice_to timers index
                       in if trimmed = [] then Inl IndexError
                          else if index = 0 then Inl ZeroDivisionError
                          else Inr \<lparr> mean = sum_list trimmed / of_int index,
                                     upper = last timers,
                                     threshold_upper = last trimmed,
                                     lower = t0,
                                     count = n \<rparr>)
                 else Inr \<lparr> mean = t0, upper = last timers, threshold_upper = last timers,
                            lower = t0, count = n \<rparr>))"

text \<open>
  \<^verbatim>\<open>
              items = {".mean": mean,
                       ".upper": upper,
                       ".upper_%s" % percent: threshold_upper,
                       ".lower": lower}
              if not self.lightweight_mode:
                  items[".count"] = count
              yield sorted((self.timer_prefix + key + item, value, timestamp)
                           for item, value in items.iteritems())
  \<close>
\<close>

definition timer_items :: "bool \<Rightarrow> int \<Rightarrow> timer_stats \<Rightarrow> real dict" where
  "timer_items lightweight percent s =
     [(''.mean'', mean s),
      (''.upper'', upper s),
      (''.upper_'' @ string_of_int percent, threshold_upper s),
      (''.lower'', lower s)]
     @ (if \<not> lightweight then [(''.count'', of_int (count s))] else [])"

definition timer_lines :: "processor \<Rightarrow> int \<Rightarrow> int \<Rightarrow> string \<Rightarrow> timer_stats \<Rightarrow> sample list" where
  "timer_lines st percent timestamp key s =
     sort (map (\<lambda>(item, v). (timer_prefix st @ key @ item, v, timestamp))
             (timer_items (lightweight_mode st) percent s))"

text \<open>
  \<^verbatim>\<open>
  def flush_timer_metrics(self, percent, timestamp):
      threshold_value = ((100 - percent) / 100.0)
      for key, timers in self.timer_metrics.iteritems():
          count = len(timers)
          if count > 0:
              self.timer_metrics[key] = []
              ...
  \<close>
\<close>

fun timer_loop ::
  "processor \<Rightarrow> int \<Rightarrow> int \<Rightarrow> real list dict \<Rightarrow> sample list list \<times> outcome \<times> processor" where
  "timer_loop st percent timestamp [] = ([], Returned, st)"
| "timer_loop st percent timestamp ((key, timers) # items) =
     (if int (length timers) > 0
      then (let st1 = st\<lparr>timer_metrics := dict_set key [] (timer_metrics st)\<rparr>
            in case compute_timer_stats percent timers of
                 Inl e \<Rightarrow> ([], Raised e, st1)
               | Inr s \<Rightarrow>
                   (let y = timer_lines st1 percent timestamp key s;
                        (ys, oc, st2) = timer_loop st1 percent timestamp items
                    in (y # ys, oc, st2)))
      else timer_loop st percent timestamp items)"

definition flush_timer_metrics ::
  "processor \<Rightarrow> int \<Rightarrow> int \<Rightarrow> sample list list \<times> outcome \<times> processor" where
  "flush_timer_metrics st percent timestamp = timer_loop st percent timestamp (timer_metrics st)"

text \<open>
  \<^verbatim>\<open>
  def flush_gauge_metrics(self, timestamp):
      for key, value in self.gauge_metrics.iteritems():
          yield ((self.gauge_prefix + key + ".value", value, timestamp),)
  \<close>
\<close>

definition flush_gauge_metrics ::
  "processor \<Rightarrow> int \<Rightarrow> sample list list \<times> outcome \<times> processor" where
  "flush_gauge_metrics st timestamp =
     (map (\<lambda>(key, v). [(gauge_prefix st @ key @ ''.value'', v, timestamp)]) (gauge_metrics st),
      Returned, st)"

text \<open>
  \<^verbatim>\<open>
  def flush_meter_metrics(self, timestamp):
      for metric in self.meter_metrics.itervalues():
          messages = metric.report(timestamp)
          yield messages
  \<close>
\<close>

definition flush_meter_metrics ::
  "externals \<Rightarrow> processor \<Rightarrow> int \<Rightarrow> sample list list \<times> outcome \<times> processor" where
  "flush_meter_metrics X st timestamp =
     (map (\<lambda>(key, metric). meter_report X metric timestamp) (meter_metrics st), Returned, st)"

text \<open>
  \<^verbatim>\<open>
  def flush_plugin_metrics(self, interval, timestamp):
      for metric in self.plugin_metrics.itervalues():
          messages = metric.flush(interval, timestamp)
          yield messages
  \<close>
\<close>

fun plugin_loop ::
  "externals \<Rightarrow> processor \<Rightarrow> int \<Rightarrow> int \<Rightarrow> plugin_metric dict
   \<Rightarrow> sample list list \<times> outcome \<times> processor" where
  "plugin_loop X st interval timestamp [] = ([], Returned, st)"
| "plugin_loop X st interval timestamp ((key, metric) # items) =
     (let (messages, metric1) = plugin_flush X metric interval timestamp;
          st1 = st\<lparr>plugin_metrics := dict_set key metric1 (plugin_metrics st)\<rparr>;
          (ys, oc, st2) = plugin_loop X st1 interval timestamp items
      in (messages # ys, oc, st2))"

definition flush_plugin_metrics ::
  "externals \<Rightarrow> processor \<Rightarrow> int \<Rightarrow> int \<Rightarrow> sample list list \<times> outcome \<times> processor" where
  "flush_plugin_metrics X st interval timestamp =
     plugin_loop X st interval timestamp (plugin_metrics st)"

text \<open>
  \<^verbatim>\<open>
  def flush_metrics_summary(self, num_stats, per_metric, timestamp):
      yield ((self.internal_metrics_prefix + "numStats",
              num_stats, timestamp),)

      self.last_flush_duration = 0
      for name, (value, duration) in per_metric.iteritems():
          yield ((self.internal_metrics_prefix +
                  "flush.%s.count" % name,
                  value, timestamp),
                 (self.internal_metrics_prefix +
                  "flush.%s.duration" % name,
                  duration * 1000, timestamp))
          log.msg("Flushed %d %s metrics in %.6f" %
                  (value, name, duration))
          self.last_flush_duration += duration

      self.last_process_duration = 0
      for metric_type, duration in self.process_timings.iteritems():
          yield ((self.internal_metrics_prefix +
                  "receive.%s.count" %
                  metric_type, self.by_type[metric_type], timestamp),
                 (self.internal_metrics_prefix +
                  "receive.%s.duration" %
                  metric_type, duration * 1000, timestamp))
          log.msg("Processing %d %s metrics took %.6f" %
                  (self.by_type[metric_type], metric_type, duration))
          self.last_process_duration += duration

      self.process_timings.clear()
      self.by_type.clear()
  \<close>
  \<open>per_metric\<close> is handed over in the order \<^verbatim>\<open>flush\<close> fills it, which stands for the
  dict's own order.
\<close>

fun summary_flush_loop ::
  "processor \<Rightarrow> int \<Rightarrow> (string \<times> int \<times> real) list \<Rightarrow> sample list list \<times> processor" where
  "summary_flush_loop st timestamp [] = ([], st)"
| "summary_flush_loop st timestamp ((name, (v, duration)) # items) =
     (let y = [(internal_metrics_prefix st @ ''flush.'' @ name @ ''.count'', of_int v, timestamp),
               (internal_metrics_prefix st @ ''flush.'' @ name @ ''.duration'', duration * 1000,
                timestamp)];
          st1 = st\<lparr>log := log st @ [Flushed v name duration]\<rparr>;
          st2 = st1\<lparr>last_flush_duration := last_flush_duration st1 + duration\<rparr>;
          (ys, st3) = summary_flush_loop st2 timestamp items
      in (y # ys, st3))"

fun summary_receive_loop ::
  "processor \<Rightarrow> int \<Rightarrow> real dict \<Rightarrow> sample list list \<times> outcome \<times> processor" where
  "summary_receive_loop st timestamp [] = ([], Returned, st)"
| "summary_receive_loop st timestamp ((metric_type, duration) # items) =
     (case dict_get (by_type st) metric_type of
        None \<Rightarrow> ([], Raised KeyError, st)
      | Some n \<Rightarrow>
          (let y = [(internal_metrics_prefix st @ ''receive.'' @ metric_type @ ''.count'',
                     of_int n, timestamp),
                    (internal_metrics_prefix st @ ''receive.'' @ metric_type @ ''.duration'',
                     duration * 1000, timestamp)];
               st1 = st\<lparr>log := log st @ [Processing n metric_type duration]\<rparr>;
               st2 = st1\<lparr>last_process_duration := last_process_duration st1 + duration\<rparr>;
               (ys, oc, st3) = summary_receive_loop st2 timestamp items
           in (y # ys, oc, st3)))"

definition flush_metrics_summary ::
  "processor \<Rightarrow> int \<Rightarrow> (string \<times> int \<times> real) list \<Rightarrow> int
   \<Rightarrow> sample list list \<times> outcome \<times> processor" where
  "flush_metrics_summary st num_stats per_metric timestamp =
     (let y0 = [(internal_metrics_prefix st @ ''numStats'', of_int num_stats, timestamp)];
          st1 = st\<lparr>last_flush_duration := 0\<rparr>;
          (ys1, st2) = summary_flush_loop st1 timestamp per_metric;
          st3 = st2\<lparr>last_process_duration := 0\<rparr>;
          (ys2, oc, st4) = summary_receive_loop st3 timestamp (process_timings st3)
      in case oc of
           Raised e \<Rightarrow> (y0 # ys1 @ ys2, Raised e, st4)
         | Returned \<Rightarrow>
             (y0 # ys1 @ ys2, Returned, st4\<lparr>process_timings := [], by_type := []\<rparr>))"

text \<open>
  One category of \<^verbatim>\<open>flush\<close>: the generator is run between two readings of the clock,
  its groups are yielded sample by sample and counted.
  \<^verbatim>\<open>
      start = self.time_function()
      events = 0
      for metrics in self.flush_counter_metrics(interval, timestamp):
          for metric in metrics:
              yield metric
          events += 1
      duration = self.time_function() - start
      num_stats += events
      per_metric["counter"] = (events, duration)
  \<close>
  When the generator raises, the second reading is not taken.
\<close>

definition flush_category ::
  "(processor \<Rightarrow> sample list list \<times> outcome \<times> processor) \<Rightarrow> processor
   \<Rightarrow> sample list \<times> outcome \<times> (int \<times> real) \<times> processor" where
  "flush_category gen st =
     (let (start, st1) = read_clock st;
          (ys, oc, st2) = gen st1;
          events = int (length ys)
      in case oc of
           Raised e \<Rightarrow> (concat ys, Raised e, (events, 0), st2)
         | Returned \<Rightarrow>
             (let (now, st3) = read_clock st2
              in (concat ys, Returned, (events, now - start), st3)))"

text \<open>
  \<^verbatim>\<open>
  def flush(self, interval=10000, percent=90):
      per_metric = {}
      num_stats = 0
      interval = interval / 1000
      timestamp = int(self.time_function())
      ... counter, timer, gauge, meter, plugin ...
      for metrics in self.flush_metrics_summary(num_stats, per_metric,
                                                timestamp):
          for metric in metrics:
              yield metric
  \<close>
  The result is what the generator yielded, how it ended, and the state.
\<close>

definition flush ::
  "externals \<Rightarrow> processor \<Rightarrow> int \<Rightarrow> int \<Rightarrow> sample list \<times> outcome \<times> processor" where
  "flush X st interval_ms percent =
     (let interval = interval_ms div 1000;
          (t, st0) = read_clock st;
          timestamp = py_int t;
          (out1, oc1, pm1, st1) =
            flush_category (\<lambda>s. flush_counter_metrics s interval timestamp) st0
      in case oc1 of
           Raised e \<Rightarrow> (out1, Raised e, st1)
         | Returned \<Rightarrow>
      (let (out2, oc2, pm2, st2) =
             flush_category (\<lambda>s. flush_timer_metrics s percent timestamp) st1
       in case oc2 of
            Raised e \<Rightarrow> (out1 @ out2, Raised e, st2)
          | Returned \<Rightarrow>
      (let (out3, oc3, pm3, st3) = flush_category (\<lambda>s. flush_gauge_metrics s timestamp) st2
       in case oc3 of
            Raised e \<Rightarrow> (out1 @ out2 @ out3, Raised e, st3)
          | Returned \<Rightarrow>
      (let (out4, oc4, pm4, st4) = flush_category (\<lambda>s. flush_meter_metrics X s timestamp) st3
       in case oc4 of
            Raised e \<Rightarrow> (out1 @ out2 @ out3 @ out4, Raised e, st4)
          | Returned \<Rightarrow>
      (let (out5, oc5, pm5, st5) =
             flush_category (\<lambda>s. flush_plugin_metrics X s interval timestamp) st4
       in case oc5 of
            Raised e \<Rightarrow> (out1 @ out2 @ out3 @ out4 @ out5, Raised e, st5)
          | Returned \<Rightarrow>
      (let num_stats = fst pm1 + fst pm2 + fst pm3 + fst pm4 + fst pm5;
           per_metric = [(''counter'', pm1), (''timer'', pm2), (''gauge'', pm3),
                         (''meter'', pm4), (''plugin'', pm5)];
           (ys, oc6, st6) = flush_metrics_summary st5 num_stats per_metric timestamp
       in (out1 @ out2 @ out3 @ out4 @ out5 @ concat ys, oc6, st6)))))))"

subsection \<open>Notions used to state the properties\<close>

text \<open>The sum a counter stands at; an absent entry counts as 0, the value it is created with.\<close>

definition counter_value :: "processor \<Rightarrow> string \<Rightarrow> real" where
  "counter_value st key = (case dict_get (counter_metrics st) key of None \<Rightarrow> 0 | Some c \<Rightarrow> c)"

text \<open>The four accumulator maps and the plugin map are the same in both states.\<close>

definition accumulators_unchanged :: "processor \<Rightarrow> processor \<Rightarrow> bool" where
  "accumulators_unchanged st st' \<longleftrightarrow>
     timer_metrics st' = timer_metrics st \<and> counter_metrics st' = counter_metrics st \<and>
     gauge_metrics st' = gauge_metrics st \<and> meter_metrics st' = meter_metrics st \<and>
     plugin_metrics st' = plugin_metrics st"

text \<open>
  A message is rejected: \<^verbatim>\<open>process\<close> returns, having logged the line and left the
  accumulators alone.
\<close>

definition rejects :: "externals \<Rightarrow> processor \<Rightarrow> string \<Rightarrow> bool" where
  "rejects X st m \<longleftrightarrow>
     fst (process X st m) = Returned \<and>
     log (snd (process X st m)) = log st @ [Bad_line m] \<and>
     accumulators_unchanged st (snd (process X st m))"

text \<open>The self-metrics are the same in both states.\<close>

definition self_metrics_unchanged :: "processor \<Rightarrow> processor \<Rightarrow> bool" where
  "self_metrics_unchanged st st' \<longleftrightarrow>
     by_type st' = by_type st \<and> process_timings st' = process_timings st"

text \<open>The prefixes \<^verbatim>\<open>__init__\<close> sets for the legacy namespace.\<close>

definition legacy_prefixes :: "processor \<Rightarrow> bool" where
  "legacy_prefixes st \<longleftrightarrow>
     legacy_namespace st \<and> stats_prefix st = ''stats.'' \<and> count_prefix st = ''stats_counts.'' \<and>
     timer_prefix st = ''stats.timers.'' \<and> gauge_prefix st = ''stats.gauge.'' \<and>
     internal_metrics_prefix st = ''statsd.''"

text \<open>
  The parts of a message as \<^verbatim>\<open>process\<close> cuts them: the normalized key, what follows the
  first colon, and its fields.
\<close>

definition message_key :: "string \<Rightarrow> string" where
  "message_key m = normalize_key (takeWhile (\<lambda>c. c \<noteq> CHR '':'') (py_strip m))"

definition message_data :: "string \<Rightarrow> string" where
  "message_data m = tl (dropWhile (\<lambda>c. c \<noteq> CHR '':'') (py_strip m))"

definition message_fields :: "string \<Rightarrow> string list" where
  "message_fields m = py_split CHR ''|'' (message_data m)"

text \<open>A bad separator or a bad number of fields.\<close>

definition bad_framing :: "string \<Rightarrow> bool" where
  "bad_framing m \<longleftrightarrow>
     CHR '':'' \<notin> set m \<or> CHR ''|'' \<notin> set (message_data m) \<or>
     length (message_fields m) < 2 \<or> length (message_fields m) > 3"

text \<open>A well-framed message whose type is none of the four tokens and no plugin's.\<close>

definition unknown_type :: "processor \<Rightarrow> string \<Rightarrow> bool" where
  "unknown_type st m \<longleftrightarrow>
     \<not> bad_framing m \<and> message_fields m ! 1 \<notin> set [''c'', ''ms'', ''g'', ''m''] \<and>
     \<not> dict_has (message_fields m ! 1) (plugins st)"

text \<open>The timestamp a flush started in state \<open>st\<close> stamps on its samples.\<close>

definition flush_timestamp :: "processor \<Rightarrow> int" where
  "flush_timestamp st = py_int (time_function st (time_calls st))"

text \<open>How many messages of a type were counted; an absent entry counts as 0.\<close>

definition type_count :: "processor \<Rightarrow> string \<Rightarrow> int" where
  "type_count st t = (case dict_get (by_type st) t of None \<Rightarrow> 0 | Some n \<Rightarrow> n)"

text \<open>
  The processor of the end-to-end scenarios: no plugins, the legacy namespace, and a
  clock that stands at 1000.
\<close>

definition scenario_processor :: "externals \<Rightarrow> bool \<Rightarrow> bool \<Rightarrow> processor" where
  "scenario_processor X delete_idle lightweight =
     init X (\<lambda>_. 1000) [] True ''stats'' ''statsd.'' delete_idle lightweight"

section \<open>Properties\<close>

subsection \<open>Key normalisation\<close>

lemma key_char_not_space: "is_key_char c \<Longrightarrow> \<not> is_space c"
  by (auto simp: is_key_char_def is_space_def)

lemma key_char_not_slash: "is_key_char c \<Longrightarrow> \<not> is_slash c"
  by (auto simp: is_key_char_def is_slash_def)

lemma re_sub_runs_none: "list_all (\<lambda>c. \<not> p c) s \<Longrightarrow> re_sub_runs p r s = s"
  by (induction s) auto

text \<open>Replacing the runs of whitespace leaves a leading run of slashes where it is.\<close>

lemma dropWhile_slash_sub_spaces:
  "dropWhile is_slash (re_sub_runs is_space ''_'' cs)
   = re_sub_runs is_space ''_'' (dropWhile is_slash cs)"
proof (induction cs)
  case Nil
  show ?case by simp
next
  case (Cons c cs)
  show ?case
  proof (cases "is_slash c")
    case True
    then have "\<not> is_space c" by (simp add: is_slash_def is_space_def)
    with True Cons show ?thesis by simp
  next
    case False
    then show ?thesis by (simp add: is_slash_def)
  qed
qed

lemma normalize_key_Nil: "normalize_key [] = []"
  by (simp add: normalize_key_def)

lemma normalize_key_space:
  "is_space c \<Longrightarrow> normalize_key (c # cs) = CHR ''_'' # normalize_key (dropWhile is_space cs)"
  by (simp add: normalize_key_def is_slash_def is_key_char_def)

lemma normalize_key_slash:
  assumes "is_slash c"
  shows "normalize_key (c # cs) = CHR ''-'' # normalize_key (dropWhile is_slash cs)"
proof -
  from assms have ns: "\<not> is_space c" by (simp add: is_slash_def is_space_def)
  have h: "is_key_char CHR ''-''" by (simp add: is_key_char_def)
  from assms ns h show ?thesis
    by (simp add: normalize_key_def dropWhile_slash_sub_spaces)
qed

lemma normalize_key_other:
  "\<not> is_space c \<Longrightarrow> \<not> is_slash c \<Longrightarrow>
   normalize_key (c # cs) = (if is_key_char c then c # normalize_key cs else normalize_key cs)"
  by (simp add: normalize_key_def)

lemma normalize_key_refines_spec: "normalize_key k = normalize_spec k"
proof (induction k rule: normalize_spec.induct)
  case 1
  show ?case by (simp add: normalize_key_Nil)
next
  case (2 c cs)
  show ?case
  proof (cases "is_space c")
    case True
    with 2 show ?thesis by (simp add: normalize_key_space)
  next
    case ns: False
    show ?thesis
    proof (cases "is_slash c")
      case True
      with ns 2 show ?thesis by (simp add: normalize_key_slash)
    next
      case False
      with ns 2 show ?thesis by (simp add: normalize_key_other)
    qed
  qed
qed

lemma normalize_key_chars: "list_all is_key_char (normalize_key k)"
  by (simp add: normalize_key_def list_all_iff)

lemma normalize_key_fixed:
  assumes "list_all is_key_char s"
  shows "normalize_key s = s"
proof -
  from assms have 1: "list_all (\<lambda>c. \<not> is_space c) s" and 2: "list_all (\<lambda>c. \<not> is_slash c) s"
    by (auto simp: list_all_iff key_char_not_space key_char_not_slash)
  from assms have 3: "filter is_key_char s = s" by (simp add: list_all_iff)
  show ?thesis
    by (simp add: normalize_key_def re_sub_runs_none [OF 1] re_sub_runs_none [OF 2] 3)
qed

text \<open>
  Claim C8. \<^verbatim>\<open>normalize_key\<close> turns every run of whitespace into one underscore and
  every run of slashes into one hyphen and deletes every other character outside
  \<^verbatim>\<open>[A-Za-z0-9._-]\<close> (it computes what the one-pass description \<open>normalize_spec\<close>
  does); \<^verbatim>\<open>normalize_key("a b/c!d")\<close> is \<^verbatim>\<open>"a_b-cd"\<close>; and it is idempotent.
\<close>

theorem normalize_key_correct:
  "normalize_key k = normalize_spec k
   \<and> normalize_key ''a b/c!d'' = ''a_b-cd''
   \<and> normalize_key (normalize_key k) = normalize_key k"
proof -
  have ex: "normalize_key ''a b/c!d'' = ''a_b-cd''"
    by (simp add: normalize_key_def is_space_def is_slash_def is_key_char_def)
  show ?thesis
    using normalize_key_refines_spec [of k] ex normalize_key_fixed [OF normalize_key_chars [of k]]
    by simp
qed

subsection \<open>Dictionaries\<close>

lemma dict_has_iff: "dict_has k d \<longleftrightarrow> dict_get d k \<noteq> None"
  by (simp add: dict_has_def dict_get_def map_of_eq_None_iff)

lemma dict_get_set_same: "dict_get (dict_set k v d) k = Some v"
proof (cases "dict_has k d")
  case True
  have "map_of (map (\<lambda>(k', v'). if k' = k then (k', v) else (k', v')) d) k = Some v"
    if "k \<in> fst ` set d" for d :: "(string \<times> 'a) list"
    using that by (induction d) auto
  with True show ?thesis by (simp add: dict_set_def dict_get_def dict_has_def)
next
  case False
  then have "map_of d k = None" by (simp add: dict_has_def map_of_eq_None_iff)
  with False show ?thesis by (simp add: dict_set_def dict_get_def map_add_def)
qed

lemma dict_get_set_other: "k' \<noteq> k \<Longrightarrow> dict_get (dict_set k v d) k' = dict_get d k'"
proof -
  assume ne: "k' \<noteq> k"
  have "map_of (map (\<lambda>(a, b). if a = k then (a, v) else (a, b)) d) k' = map_of d k'"
    for d :: "(string \<times> 'a) list"
    using ne by (induction d) auto
  with ne show ?thesis
    by (auto simp: dict_set_def dict_get_def map_add_def split: option.splits)
qed

lemma dict_has_set: "dict_has k' (dict_set k v d) \<longleftrightarrow> k' = k \<or> dict_has k' d"
  by (cases "k' = k") (simp_all add: dict_has_iff dict_get_set_same dict_get_set_other)

lemma dict_set_absent: "\<not> dict_has k d \<Longrightarrow> dict_set k v d = d @ [(k, v)]"
  by (simp add: dict_set_def)

lemma dict_set_present:
  "dict_has k d \<Longrightarrow> dict_set k v d = map (\<lambda>(k', v'). if k' = k then (k', v) else (k', v')) d"
  by (simp add: dict_set_def)

lemma dict_set_twice: "dict_set k v (dict_set k w d) = dict_set k v d"
proof (cases "dict_has k d")
  case True
  have h: "dict_has k (dict_set k w d)" by (simp add: dict_has_set)
  have mm: "map (\<lambda>(k', v'). if k' = k then (k', v) else (k', v'))
          (map (\<lambda>(k', v'). if k' = k then (k', w) else (k', v')) d)
        = map (\<lambda>(k', v'). if k' = k then (k', v) else (k', v')) d"
    by (induction d) auto
  have e1: "dict_set k w d = map (\<lambda>(k', v'). if k' = k then (k', w) else (k', v')) d"
    by (rule dict_set_present [OF True])
  have "dict_set k v (dict_set k w d)
        = map (\<lambda>(k', v'). if k' = k then (k', v) else (k', v')) (dict_set k w d)"
    by (rule dict_set_present [OF h])
  also have "\<dots> = map (\<lambda>(k', v'). if k' = k then (k', v) else (k', v')) d"
    unfolding e1 by (rule mm)
  also have "\<dots> = dict_set k v d"
    by (rule dict_set_present [OF True, symmetric])
  finally show ?thesis .
next
  case False
  have e1: "dict_set k w d = d @ [(k, w)]" by (rule dict_set_absent [OF False])
  have h: "dict_has k (d @ [(k, w)])" by (simp add: dict_has_def)
  from False have m: "map (\<lambda>(k', v'). if k' = k then (k', v) else (k', v')) d = d"
    by (induction d) (auto simp: dict_has_def)
  have "dict_set k v (d @ [(k, w)]) = d @ [(k, v)]"
    unfolding dict_set_present [OF h] using m by simp
  then show ?thesis
    unfolding e1 dict_set_absent [OF False] .
qed

lemma dict_get_setdefault:
  "dict_get (setdefault k v d) k = Some (case dict_get d k of None \<Rightarrow> v | Some x \<Rightarrow> x)"
proof (cases "dict_has k d")
  case True
  then show ?thesis by (auto simp: setdefault_def dict_has_iff)
next
  case False
  then have "map_of d k = None" by (simp add: dict_has_def map_of_eq_None_iff)
  with False show ?thesis by (simp add: setdefault_def dict_get_def map_add_def)
qed

lemma dict_set_setdefault: "dict_set k v (setdefault k w d) = dict_set k v d"
proof (cases "dict_has k d")
  case True
  then show ?thesis by (simp add: setdefault_def)
next
  case False
  then have "setdefault k w d = dict_set k w d" by (simp add: setdefault_def dict_set_def)
  then show ?thesis by (simp add: dict_set_twice)
qed

subsection \<open>Parsing and accumulating\<close>

lemma in_set_dropWhile: "x \<in> set xs \<Longrightarrow> \<not> P x \<Longrightarrow> x \<in> set (dropWhile P xs)"
  by (induction xs) auto

lemma in_set_py_strip: "c \<in> set s \<Longrightarrow> \<not> is_space c \<Longrightarrow> c \<in> set (py_strip s)"
  by (simp add: py_strip_def in_set_dropWhile)

lemma colon_not_space: "\<not> is_space CHR '':''"
  by (simp add: is_space_def)

lemma process_bad_framing: "bad_framing m \<Longrightarrow> process X st m = fail st m"
  by (auto simp: bad_framing_def process_def py_split1_def message_fields_def message_data_def
      Let_def in_set_py_strip colon_not_space)

lemma process_well_framed:
  "\<not> bad_framing m \<Longrightarrow>
   process X st m =
     process_message X st m (message_fields m ! 1) (message_key m) (message_fields m)"
  by (auto simp: bad_framing_def process_def py_split1_def message_fields_def message_data_def
      message_key_def Let_def in_set_py_strip colon_not_space)

lemma compose_counter_metric_ok:
  assumes "scaled_value v r = Inr x"
  shows "compose_counter_metric st key v r =
    (Returned, st\<lparr>counter_metrics := dict_set key (counter_value st key + x) (counter_metrics st)\<rparr>)"
proof (cases "dict_has key (counter_metrics st)")
  case True
  then obtain c where "dict_get (counter_metrics st) key = Some c"
    by (auto simp: dict_has_iff)
  with True assms show ?thesis
    by (simp add: compose_counter_metric_def counter_value_def)
next
  case False
  then have "dict_get (counter_metrics st) key = None" by (simp add: dict_has_iff)
  with False assms show ?thesis
    by (simp add: compose_counter_metric_def counter_value_def dict_get_set_same dict_set_twice)
qed

lemma compose_counter_metric_raise:
  assumes "scaled_value v r = Inl e"
  shows "compose_counter_metric st key v r =
    (Raised e, st\<lparr>counter_metrics := setdefault key 0 (counter_metrics st)\<rparr>)"
proof (cases "dict_has key (counter_metrics st)")
  case True
  then obtain c where "dict_get (counter_metrics st) key = Some c"
    by (auto simp: dict_has_iff)
  with True assms show ?thesis
    by (simp add: compose_counter_metric_def setdefault_def)
next
  case False
  then have "setdefault key 0 (counter_metrics st) = dict_set key 0 (counter_metrics st)"
    by (simp add: setdefault_def dict_set_def)
  with False assms show ?thesis
    by (simp add: compose_counter_metric_def dict_get_set_same)
qed

lemma compose_timer_metric_eq:
  "compose_timer_metric st key d =
    (Returned, st\<lparr>timer_metrics :=
       dict_set key ((case dict_get (timer_metrics st) key of None \<Rightarrow> [] | Some ds \<Rightarrow> ds) @ [d])
         (timer_metrics st)\<rparr>)"
proof (cases "dict_has key (timer_metrics st)")
  case True
  then obtain c where "dict_get (timer_metrics st) key = Some c"
    by (auto simp: dict_has_iff)
  with True show ?thesis
    by (simp add: compose_timer_metric_def)
next
  case False
  then have "dict_get (timer_metrics st) key = None" by (simp add: dict_has_iff)
  with False show ?thesis
    by (simp add: compose_timer_metric_def dict_get_set_same dict_set_twice)
qed

lemma record_processing_eq:
  "record_processing st mt start =
    (Returned,
     st\<lparr>process_timings :=
          dict_set mt ((case dict_get (process_timings st) mt of None \<Rightarrow> 0 | Some t \<Rightarrow> t)
                       + (time_function st (time_calls st) - start)) (process_timings st),
        time_calls := Suc (time_calls st),
        by_type :=
          dict_set mt ((case dict_get (by_type st) mt of None \<Rightarrow> 0 | Some n \<Rightarrow> n) + 1)
            (by_type st)\<rparr>)"
  by (simp add: record_processing_def dict_get_setdefault read_clock_def dict_set_setdefault)

lemma process_message_unknown:
  assumes "mt \<notin> set [''c'', ''ms'', ''g'', ''m'']" and "\<not> dict_has mt (plugins st)"
  shows "process_message X st m mt key flds = fail (st\<lparr>time_calls := Suc (time_calls st)\<rparr>) m"
  using assms by (simp add: process_message_def handle_def read_clock_def)

lemma process_message_counter:
  "process_message X st m ''c'' key flds =
     (case process_counter_metric (st\<lparr>time_calls := Suc (time_calls st)\<rparr>) key flds m of
        (Raised e, st1) \<Rightarrow> (Raised e, st1)
      | (Returned, st1) \<Rightarrow> record_processing st1 ''c'' (time_function st (time_calls st)))"
  by (simp add: process_message_def handle_def read_clock_def split: prod.splits outcome.splits)

lemma process_message_timer:
  "process_message X st m ''ms'' key (f0 # flds) =
     (case process_timer_metric (st\<lparr>time_calls := Suc (time_calls st)\<rparr>) key f0 m of
        (Raised e, st1) \<Rightarrow> (Raised e, st1)
      | (Returned, st1) \<Rightarrow> record_processing st1 ''ms'' (time_function st (time_calls st)))"
  by (simp add: process_message_def handle_def read_clock_def field0_def
      split: prod.splits outcome.splits)

lemma process_message_gauge:
  "process_message X st m ''g'' key (f0 # flds) =
     (case process_gauge_metric (st\<lparr>time_calls := Suc (time_calls st)\<rparr>) key f0 m of
        (Raised e, st1) \<Rightarrow> (Raised e, st1)
      | (Returned, st1) \<Rightarrow> record_processing st1 ''g'' (time_function st (time_calls st)))"
  by (simp add: process_message_def handle_def read_clock_def field0_def
      split: prod.splits outcome.splits)

lemma process_message_meter:
  "process_message X st m ''m'' key (f0 # flds) =
     (case process_meter_metric X (st\<lparr>time_calls := Suc (time_calls st)\<rparr>) key f0 m of
        (Raised e, st1) \<Rightarrow> (Raised e, st1)
      | (Returned, st1) \<Rightarrow> record_processing st1 ''m'' (time_function st (time_calls st)))"
  by (simp add: process_message_def handle_def read_clock_def field0_def
      split: prod.splits outcome.splits)

lemmas framing_defs = bad_framing_def message_fields_def message_data_def py_strip_def is_space_def
lemmas float_defs = py_float_def split_sign_def py_exponent_def nat_of_digits_def digit_val_def
  is_digit_def py_strip_def is_space_def

lemma scaled_value_int1: "scaled_value x (Rate_int 1) = Inr (x * (1 / 1))"
  by (simp add: scaled_value_def float_of_rate_def)

lemma scaled_value_str:
  "py_float g = Some q \<Longrightarrow>
   scaled_value x (Rate_str g) = (if q = 0 then Inl ZeroDivisionError else Inr (x * (1 / q)))"
  by (simp add: scaled_value_def float_of_rate_def)

lemma process_counter_two_fields:
  "py_float v = Some x \<Longrightarrow>
   process_counter_metric st key [v, t] m =
     (Returned, st\<lparr>counter_metrics :=
        dict_set key (counter_value st key + x * (1 / 1)) (counter_metrics st)\<rparr>)"
  by (simp add: process_counter_metric_def compose_counter_metric_ok [OF scaled_value_int1])

lemma process_counter_rate:
  assumes "py_float v = Some x" "rate_match f3 = Some g" "py_float g = Some q" "q \<noteq> 0"
  shows "process_counter_metric st key [v, t, f3] m =
     (Returned, st\<lparr>counter_metrics :=
        dict_set key (counter_value st key + x * (1 / q)) (counter_metrics st)\<rparr>)"
proof -
  from assms have "scaled_value x (Rate_str g) = Inr (x * (1 / q))"
    by (simp add: scaled_value_str)
  from compose_counter_metric_ok [OF this] assms show ?thesis
    by (simp add: process_counter_metric_def)
qed

lemma process_counter_rate_zero:
  assumes "py_float v = Some x" "rate_match f3 = Some g" "py_float g = Some 0"
  shows "process_counter_metric st key [v, t, f3] m =
     (Raised ZeroDivisionError, st\<lparr>counter_metrics := setdefault key 0 (counter_metrics st)\<rparr>)"
proof -
  from assms have "scaled_value x (Rate_str g) = Inl ZeroDivisionError"
    by (simp add: scaled_value_str)
  from compose_counter_metric_raise [OF this] assms show ?thesis
    by (simp add: process_counter_metric_def)
qed

lemma process_counter_unparsable:
  "py_float v = None \<Longrightarrow> process_counter_metric st key (v # rest) m = fail st m"
  by (simp add: process_counter_metric_def)

lemma float_1: "py_float ''1'' = Some 1" by (simp add: float_defs)
lemma float_3: "py_float ''3'' = Some 3" by (simp add: float_defs)
lemma float_0: "py_float ''0'' = Some 0" by (simp add: float_defs)
lemma float_half: "py_float ''0.5'' = Some (1 / 2)" by (simp add: float_defs)
lemma float_empty: "py_float '''' = None" by (simp add: float_defs)
lemma float_abc: "py_float ''abc'' = None" by (simp add: float_defs)

lemma process_foo_1_c:
  "process X st ''foo:1|c'' =
    record_processing
      (st\<lparr>time_calls := Suc (time_calls st),
          counter_metrics := dict_set ''foo'' (counter_value st ''foo'' + 1) (counter_metrics st)\<rparr>)
      ''c'' (time_function st (time_calls st))"
proof -
  have wf: "\<not> bad_framing ''foo:1|c''" by (simp add: framing_defs)
  have f: "message_fields ''foo:1|c'' = [''1'', ''c'']" by (simp add: framing_defs)
  have k: "message_key ''foo:1|c'' = ''foo''"
    by (simp add: message_key_def py_strip_def normalize_key_def is_space_def is_slash_def
        is_key_char_def)
  show ?thesis
    by (simp add: process_well_framed [OF wf] f k process_message_counter
        process_counter_two_fields [OF float_1] counter_value_def)
qed

lemma rejects_bad_framing: "bad_framing m \<Longrightarrow> rejects X st m"
  by (simp add: rejects_def process_bad_framing fail_def accumulators_unchanged_def)

lemma self_metrics_bad_framing:
  "bad_framing m \<Longrightarrow> self_metrics_unchanged st (snd (process X st m))"
  by (simp add: process_bad_framing fail_def self_metrics_unchanged_def)

lemma process_unknown_type:
  assumes "unknown_type st m"
  shows "process X st m = fail (st\<lparr>time_calls := Suc (time_calls st)\<rparr>) m"
proof -
  from assms have wf: "\<not> bad_framing m"
    and t: "message_fields m ! 1 \<notin> set [''c'', ''ms'', ''g'', ''m'']"
    and p: "\<not> dict_has (message_fields m ! 1) (plugins st)"
    by (simp_all add: unknown_type_def)
  show ?thesis
    unfolding process_well_framed [OF wf] by (rule process_message_unknown [OF t p])
qed

lemma rejects_unknown_type: "unknown_type st m \<Longrightarrow> rejects X st m"
  by (simp add: rejects_def process_unknown_type fail_def accumulators_unchanged_def)

lemma self_metrics_unknown_type:
  "unknown_type st m \<Longrightarrow> self_metrics_unchanged st (snd (process X st m))"
  by (simp add: process_unknown_type fail_def self_metrics_unchanged_def)

lemma well_framed_fields:
  assumes "\<not> bad_framing m"
  obtains f0 f1 rest where "message_fields m = f0 # f1 # rest"
proof -
  from assms have "2 \<le> length (message_fields m)" by (simp add: bad_framing_def)
  then show thesis
    by (cases "message_fields m"; cases "tl (message_fields m)") (auto intro: that)
qed

lemma process_unparsable_counter:
  assumes wf: "\<not> bad_framing m" and t: "message_fields m ! 1 = ''c''"
    and v: "py_float (message_fields m ! 0) = None"
  shows "process X st m =
    record_processing (st\<lparr>time_calls := Suc (time_calls st), log := log st @ [Bad_line m]\<rparr>)
      ''c'' (time_function st (time_calls st))"
proof -
  from wf obtain f0 f1 rest where f: "message_fields m = f0 # f1 # rest"
    by (rule well_framed_fields)
  with t v have t': "f1 = ''c''" and v': "py_float f0 = None" by simp_all
  show ?thesis
    unfolding process_well_framed [OF wf] f
    by (simp add: t' process_message_counter process_counter_unparsable [OF v'] fail_def)
qed

lemma process_unparsable_timer:
  assumes wf: "\<not> bad_framing m" and t: "message_fields m ! 1 = ''ms''"
    and v: "py_float (message_fields m ! 0) = None"
  shows "process X st m =
    record_processing (st\<lparr>time_calls := Suc (time_calls st), log := log st @ [Bad_line m]\<rparr>)
      ''ms'' (time_function st (time_calls st))"
proof -
  from wf obtain f0 f1 rest where f: "message_fields m = f0 # f1 # rest"
    by (rule well_framed_fields)
  with t v have t': "f1 = ''ms''" and v': "py_float f0 = None" by simp_all
  show ?thesis
    unfolding process_well_framed [OF wf] f
    by (simp add: t' process_message_timer process_timer_metric_def v' fail_def)
qed

subsection \<open>The parser\<close>

text \<open>
  Claim C5. The parser accepts \<^verbatim>\<open>"foo:1|c"\<close>, adding 1 to the counter \<^verbatim>\<open>foo\<close> and
  logging nothing, and rejects each of \<^verbatim>\<open>"foo1|c"\<close>, \<^verbatim>\<open>"foo:1"\<close>,
  \<^verbatim>\<open>"foo:1|c|extra|more"\<close> and \<^verbatim>\<open>"foo:|c"\<close>: it logs the line and leaves every
  accumulator map as it was. This holds in every state of the processor.
\<close>

theorem parser_accepts_and_rejects:
  "fst (process X st ''foo:1|c'') = Returned
   \<and> counter_metrics (snd (process X st ''foo:1|c''))
       = dict_set ''foo'' (counter_value st ''foo'' + 1) (counter_metrics st)
   \<and> log (snd (process X st ''foo:1|c'')) = log st
   \<and> rejects X st ''foo1|c''
   \<and> rejects X st ''foo:1''
   \<and> rejects X st ''foo:1|c|extra|more''
   \<and> rejects X st ''foo:|c''"
proof -
  have a: "fst (process X st ''foo:1|c'') = Returned
    \<and> counter_metrics (snd (process X st ''foo:1|c''))
       = dict_set ''foo'' (counter_value st ''foo'' + 1) (counter_metrics st)
    \<and> log (snd (process X st ''foo:1|c'')) = log st"
    by (simp add: process_foo_1_c record_processing_eq)
  have b1: "rejects X st ''foo1|c''"
    by (rule rejects_bad_framing) (simp add: framing_defs)
  have b2: "rejects X st ''foo:1''"
    by (rule rejects_bad_framing) (simp add: framing_defs)
  have b3: "rejects X st ''foo:1|c|extra|more''"
    by (rule rejects_bad_framing) (simp add: framing_defs)
  have wf: "\<not> bad_framing ''foo:|c''" by (simp add: framing_defs)
  have f: "message_fields ''foo:|c'' = ['''', ''c'']" by (simp add: framing_defs)
  have b4: "rejects X st ''foo:|c''"
    by (simp add: rejects_def process_unparsable_counter [OF wf] f float_empty
        record_processing_eq accumulators_unchanged_def)
  from a b1 b2 b3 b4 show ?thesis by simp
qed

lemma unparsable_value_is_counted:
  assumes "\<not> bad_framing m" "message_fields m ! 1 \<in> set [''c'', ''ms'']"
    "py_float (message_fields m ! 0) = None"
  shows "rejects X st m"
    and "type_count (snd (process X st m)) (message_fields m ! 1)
          = type_count st (message_fields m ! 1) + 1"
proof -
  from assms(2) consider "message_fields m ! 1 = ''c''" | "message_fields m ! 1 = ''ms''"
    by auto
  then show "rejects X st m"
  proof cases
    case 1
    with assms show ?thesis
      by (simp add: rejects_def process_unparsable_counter record_processing_eq
          accumulators_unchanged_def)
  next
    case 2
    with assms show ?thesis
      by (simp add: rejects_def process_unparsable_timer record_processing_eq
          accumulators_unchanged_def)
  qed
  from assms(2) consider "message_fields m ! 1 = ''c''" | "message_fields m ! 1 = ''ms''"
    by auto
  then show "type_count (snd (process X st m)) (message_fields m ! 1)
          = type_count st (message_fields m ! 1) + 1"
  proof cases
    case 1
    with assms show ?thesis
      by (simp add: type_count_def process_unparsable_counter record_processing_eq
          dict_get_set_same)
  next
    case 2
    with assms show ?thesis
      by (simp add: type_count_def process_unparsable_timer record_processing_eq
          dict_get_set_same)
  qed
qed

text \<open>
  Claim C6, amended. A message with a bad separator, a bad number of fields or an
  unknown type token is rejected with no self-metric touched: \<^verbatim>\<open>by_type\<close> and
  \<^verbatim>\<open>process_timings\<close> stay as they were. (A counter or timer message whose value does
  not parse is outside this statement: \<open>unparsable_value_is_counted\<close>.)
\<close>

theorem rejected_messages_and_self_metrics:
  "bad_framing m \<or> unknown_type st m \<longrightarrow>
     rejects X st m \<and> self_metrics_unchanged st (snd (process X st m))"
  by (auto simp: rejects_bad_framing rejects_unknown_type self_metrics_bad_framing
      self_metrics_unknown_type)

lemma default_processor_fields:
  "by_type (default_processor X clock) = []"
  "process_timings (default_processor X clock) = []"
  "plugins (default_processor X clock) = []"
  "counter_metrics (default_processor X clock) = []"
  "timer_metrics (default_processor X clock) = []"
  "log (default_processor X clock) = []"
  "time_calls (default_processor X clock) = 0"
  "time_function (default_processor X clock) = clock"
  by (simp_all add: default_processor_def init_def)

theorem rejected_messages_and_self_metrics_witness:
  "\<forall>X. rejects X (default_processor X (\<lambda>_. 0)) ''foo1|c''
     \<and> self_metrics_unchanged (default_processor X (\<lambda>_. 0))
         (snd (process X (default_processor X (\<lambda>_. 0)) ''foo1|c''))
     \<and> rejects X (default_processor X (\<lambda>_. 0)) ''foo:1|xyz''
     \<and> self_metrics_unchanged (default_processor X (\<lambda>_. 0))
         (snd (process X (default_processor X (\<lambda>_. 0)) ''foo:1|xyz''))"
proof
  fix X
  let ?st = "default_processor X (\<lambda>_. 0)"
  have h1: "bad_framing ''foo1|c''" by (simp add: framing_defs)
  have f2: "message_fields ''foo:1|xyz'' = [''1'', ''xyz'']" by (simp add: framing_defs)
  have w2: "\<not> bad_framing ''foo:1|xyz''" by (simp add: framing_defs)
  have h2: "unknown_type ?st ''foo:1|xyz''"
    by (simp add: unknown_type_def w2 f2 dict_has_def default_processor_fields)
  show "rejects X ?st ''foo1|c''
     \<and> self_metrics_unchanged ?st (snd (process X ?st ''foo1|c''))
     \<and> rejects X ?st ''foo:1|xyz''
     \<and> self_metrics_unchanged ?st (snd (process X ?st ''foo:1|xyz''))"
    using rejected_messages_and_self_metrics [of "''foo1|c''" ?st X]
      rejected_messages_and_self_metrics [of "''foo:1|xyz''" ?st X] h1 h2
    by simp
qed

text \<open>
  The claim as first stated fails: on a fresh processor the malformed \<^verbatim>\<open>"foo:abc|c"\<close>
  raises the count of type \<^verbatim>\<open>c\<close> from nothing to 1 and creates its timing entry.
\<close>

theorem unparsable_counter_is_counted:
  "\<forall>X. by_type (default_processor X (\<lambda>_. 0)) = []
     \<and> by_type (snd (process X (default_processor X (\<lambda>_. 0)) ''foo:abc|c'')) = [(''c'', 1)]
     \<and> process_timings (default_processor X (\<lambda>_. 0)) = []
     \<and> process_timings (snd (process X (default_processor X (\<lambda>_. 0)) ''foo:abc|c''))
         = [(''c'', 0)]"
proof
  fix X
  let ?st = "default_processor X (\<lambda>_. 0)"
  have f3: "message_fields ''foo:abc|c'' = [''abc'', ''c'']" by (simp add: framing_defs)
  have w3: "\<not> bad_framing ''foo:abc|c''" by (simp add: framing_defs)
  have p: "process X ?st ''foo:abc|c'' =
    record_processing (?st\<lparr>time_calls := Suc (time_calls ?st), log := log ?st @ [Bad_line ''foo:abc|c'']\<rparr>)
      ''c'' (time_function ?st (time_calls ?st))"
    by (rule process_unparsable_counter [OF w3]) (simp_all add: f3 float_abc)
  show "by_type ?st = []
     \<and> by_type (snd (process X ?st ''foo:abc|c'')) = [(''c'', 1)]
     \<and> process_timings ?st = []
     \<and> process_timings (snd (process X ?st ''foo:abc|c'')) = [(''c'', 0)]"
    unfolding p
    by (simp add: record_processing_eq default_processor_fields dict_get_def dict_set_def dict_has_def)
qed

lemma process_gauge_unparsable:
  assumes "py_split CHR '':'' v = [w]" "py_float w = None"
  shows "process_gauge_metric st key v m = (Raised UnboundLocalError, st\<lparr>log := log st @ [Bad_line m]\<rparr>)"
  using assms by (simp add: process_gauge_metric_def fail_def)

lemma process_meter_unparsable:
  assumes "py_split CHR '':'' v = [w]" "py_float w = None"
  shows "process_meter_metric X st key v m = (Raised UnboundLocalError, st\<lparr>log := log st @ [Bad_line m]\<rparr>)"
  using assms by (simp add: process_meter_metric_def fail_def)

text \<open>
  Claim C7, at its failing input. A gauge or meter message whose value does not parse
  is logged, and then the handler raises \<^verbatim>\<open>UnboundLocalError\<close>: its \<^verbatim>\<open>except\<close> branch
  lacks the \<^verbatim>\<open>return\<close> that the counter and timer handlers have. The accumulators are
  untouched.
\<close>

theorem unparsable_gauge_or_meter_raises:
  "process X st ''k:abc|g''
     = (Raised UnboundLocalError,
        st\<lparr>time_calls := Suc (time_calls st), log := log st @ [Bad_line ''k:abc|g'']\<rparr>)
   \<and> process X st ''k:abc|m''
     = (Raised UnboundLocalError,
        st\<lparr>time_calls := Suc (time_calls st), log := log st @ [Bad_line ''k:abc|m'']\<rparr>)"
proof -
  have s: "py_split CHR '':'' ''abc'' = [''abc'']" by simp
  have wg: "\<not> bad_framing ''k:abc|g''" by (simp add: framing_defs)
  have fg: "message_fields ''k:abc|g'' = [''abc'', ''g'']" by (simp add: framing_defs)
  have wm: "\<not> bad_framing ''k:abc|m''" by (simp add: framing_defs)
  have fm: "message_fields ''k:abc|m'' = [''abc'', ''m'']" by (simp add: framing_defs)
  have g: "process X st ''k:abc|g''
     = (Raised UnboundLocalError,
        st\<lparr>time_calls := Suc (time_calls st), log := log st @ [Bad_line ''k:abc|g'']\<rparr>)"
    by (simp add: process_well_framed [OF wg] fg process_message_gauge
        process_gauge_unparsable [OF s float_abc])
  have m: "process X st ''k:abc|m''
     = (Raised UnboundLocalError,
        st\<lparr>time_calls := Suc (time_calls st), log := log st @ [Bad_line ''k:abc|m'']\<rparr>)"
    by (simp add: process_well_framed [OF wm] fm process_message_meter
        process_meter_unparsable [OF s float_abc])
  from g m show ?thesis by simp
qed

text \<open>
  Claim C10. A well-framed counter message whose value parses and whose rate field
  matches the pattern and parses to zero makes \<^verbatim>\<open>process\<close> raise
  \<^verbatim>\<open>ZeroDivisionError\<close>, with nothing logged; so such a message with a parsed rate is
  processed to the end only if the rate is not zero. The message \<^verbatim>\<open>"k:1|c|@0"\<close> is one
  that reaches the division.
\<close>

theorem zero_rate_raises:
  "(\<not> bad_framing m \<and> message_fields m = [v, ''c'', f3] \<and> py_float v = Some x
      \<and> rate_match f3 = Some g \<and> py_float g = Some 0 \<longrightarrow>
      fst (process X st m) = Raised ZeroDivisionError
      \<and> log (snd (process X st m)) = log st)
   \<and> (\<not> bad_framing m \<and> message_fields m = [v, ''c'', f3] \<and> py_float v = Some x
        \<and> rate_match f3 = Some g \<and> py_float g = Some q
        \<and> fst (process X st m) = Returned \<longrightarrow> q \<noteq> 0)
   \<and> fst (process X st ''k:1|c|@0'') = Raised ZeroDivisionError
   \<and> log (snd (process X st ''k:1|c|@0'')) = log st"
proof -
  have a: "fst (process X st m) = Raised ZeroDivisionError \<and> log (snd (process X st m)) = log st"
    if "\<not> bad_framing m" "message_fields m = [v, ''c'', f3]" "py_float v = Some x"
      "rate_match f3 = Some g" "py_float g = Some 0" for m v f3 x g
    using that
    by (simp add: process_well_framed process_message_counter process_counter_rate_zero)
  have w: "\<not> bad_framing ''k:1|c|@0''" by (simp add: framing_defs)
  have f: "message_fields ''k:1|c|@0'' = [''1'', ''c'', ''@0'']" by (simp add: framing_defs)
  have r: "rate_match ''@0'' = Some ''0''" by (simp add: rate_match_def is_digit_def)
  from a [OF w f float_1 r float_0] a show ?thesis by (metis outcome.distinct(1))
qed

theorem zero_rate_raises_witness:
  "\<forall>X st. fst (process X st ''k:1|c|@0.0'') = Raised ZeroDivisionError
     \<and> log (snd (process X st ''k:1|c|@0.0'')) = log st
     \<and> fst (process X st ''k:3|c|@0.5'') = Returned
     \<and> (1 / 2 :: real) \<noteq> 0"
proof (intro allI)
  fix X st
  have w0: "\<not> bad_framing ''k:1|c|@0.0''" by (simp add: framing_defs)
  have f0: "message_fields ''k:1|c|@0.0'' = [''1'', ''c'', ''@0.0'']" by (simp add: framing_defs)
  have r0: "rate_match ''@0.0'' = Some ''0.0''" by (simp add: rate_match_def is_digit_def)
  have z: "py_float ''0.0'' = Some 0" by (simp add: float_defs)
  have w5: "\<not> bad_framing ''k:3|c|@0.5''" by (simp add: framing_defs)
  have f5: "message_fields ''k:3|c|@0.5'' = [''3'', ''c'', ''@0.5'']" by (simp add: framing_defs)
  have r5: "rate_match ''@0.5'' = Some ''0.5''" by (simp add: rate_match_def is_digit_def)
  have h: "(1 / 2 :: real) \<noteq> 0" by simp
  have ok: "fst (process X st ''k:3|c|@0.5'') = Returned"
    by (simp add: process_well_framed [OF w5] f5 process_message_counter
        process_counter_rate [OF float_3 r5 float_half h] record_processing_eq)
  show "fst (process X st ''k:1|c|@0.0'') = Raised ZeroDivisionError
     \<and> log (snd (process X st ''k:1|c|@0.0'')) = log st
     \<and> fst (process X st ''k:3|c|@0.5'') = Returned
     \<and> (1 / 2 :: real) \<noteq> 0"
    using zero_rate_raises [of "''k:1|c|@0.0''" "''1''" "''@0.0''" 1 "''0.0''" X st]
      zero_rate_raises [of "''k:3|c|@0.5''" "''3''" "''@0.5''" 3 "''0.5''" X st "1 / 2"]
      w0 f0 r0 z float_1 w5 f5 r5 float_3 float_half ok
    by simp
qed

subsection \<open>Flushing the counters\<close>

lemma counter_lines_config:
  "counter_lines (st\<lparr>counter_metrics := cm\<rparr>) interval ts key c = counter_lines st interval ts key c"
  by (simp add: counter_lines_def Let_def)

lemma counter_loop_outputs:
  "interval \<noteq> 0 \<Longrightarrow>
   counter_loop st interval ts items =
     (map (\<lambda>(key, c). counter_lines st interval ts key c) items, Returned,
      st\<lparr>counter_metrics := fold (\<lambda>(key, c). dict_set key 0) items (counter_metrics st)\<rparr>)"
proof (induction items arbitrary: st)
  case Nil
  show ?case by simp
next
  case (Cons kc items)
  obtain key c where kc: "kc = (key, c)" by (cases kc)
  show ?case
    using Cons.prems
    by (simp add: kc Cons.IH [OF Cons.prems] counter_lines_config case_prod_unfold)
qed

lemma counter_loop_zero_interval: "fst (counter_loop st 0 ts items) = []"
  by (cases items) auto

lemma fold_zero_keys:
  "set (map fst items) \<subseteq> set (map fst d) \<Longrightarrow>
   fold (\<lambda>(key, c). dict_set key (0::real)) items d =
     map (\<lambda>(k, v). if k \<in> set (map fst items) then (k, 0) else (k, v)) d"
proof (induction items arbitrary: d)
  case Nil
  show ?case by simp
next
  case (Cons kc items)
  obtain key c where kc: "kc = (key, c)" by (cases kc)
  from Cons.prems have has: "dict_has key d" by (simp add: kc dict_has_def)
  let ?d1 = "dict_set key 0 d"
  have d1: "?d1 = map (\<lambda>(k', v'). if k' = key then (k', 0) else (k', v')) d"
    by (rule dict_set_present [OF has])
  have keys: "map fst ?d1 = map fst d"
    unfolding d1 by (induction d) auto
  from Cons.prems have sub: "set (map fst items) \<subseteq> set (map fst ?d1)"
    by (simp add: keys)
  have "fold (\<lambda>(key, c). dict_set key (0::real)) (kc # items) d
        = fold (\<lambda>(key, c). dict_set key (0::real)) items ?d1"
    by (simp add: kc)
  also have "\<dots> = map (\<lambda>(k, v). if k \<in> set (map fst items) then (k, 0) else (k, v)) ?d1"
    by (rule Cons.IH [OF sub])
  also have "\<dots> = map (\<lambda>(k, v). if k \<in> set (map fst (kc # items)) then (k, 0) else (k, v)) d"
    unfolding d1 by (induction d) (auto simp: kc)
  finally show ?case .
qed

lemma fold_zero_all:
  "fold (\<lambda>(key, c). dict_set key (0::real)) d d = map (\<lambda>(k, v). (k, 0)) d"
proof -
  have "map (\<lambda>(k, v). if k \<in> set (map fst d) then (k, 0::real) else (k, v)) d
        = map (\<lambda>(k, v). (k, 0)) d"
    by (rule map_cong) force+
  with fold_zero_keys [of d d] show ?thesis by simp
qed

lemma flush_counter_metrics_eq:
  "interval \<noteq> 0 \<Longrightarrow>
   flush_counter_metrics st interval ts =
     (map (\<lambda>(key, c). counter_lines st interval ts key c) (counter_metrics st), Returned,
      st\<lparr>counter_metrics :=
           if delete_idle_counters st then [] else map (\<lambda>(k, v). (k, 0)) (counter_metrics st)\<rparr>)"
  by (simp add: flush_counter_metrics_def counter_loop_outputs fold_zero_all)

lemma flush_counter_metrics_zero_interval: "fst (flush_counter_metrics st 0 ts) = []"
proof -
  obtain ys oc st1 where c: "counter_loop st 0 ts (counter_metrics st) = (ys, oc, st1)"
    by (cases "counter_loop st 0 ts (counter_metrics st)")
  with counter_loop_zero_interval [of st ts "counter_metrics st"] have "ys = []" by simp
  with c show ?thesis
    by (simp add: flush_counter_metrics_def split: outcome.splits)
qed

lemma flush_counter_metrics_Returned:
  assumes "flush_counter_metrics st interval ts = (ys, Returned, st')"
  shows "counter_metrics st' =
           (if delete_idle_counters st then [] else map (\<lambda>(k, v). (k, 0)) (counter_metrics st))"
proof (cases "interval = 0")
  case False
  from flush_counter_metrics_eq [OF False, of st ts] assms show ?thesis by auto
next
  case True
  show ?thesis
  proof (cases "counter_metrics st")
    case Nil
    with assms True show ?thesis by (auto simp: flush_counter_metrics_def)
  next
    case (Cons kc items)
    obtain key c where kc: "kc = (key, c)" by (cases kc)
    from assms True Cons show ?thesis by (simp add: flush_counter_metrics_def kc)
  qed
qed

lemma timer_loop_counters:
  "counter_metrics (snd (snd (timer_loop st P ts items))) = counter_metrics st"
proof (induction items arbitrary: st)
  case Nil
  show ?case by simp
next
  case (Cons kt items)
  obtain key timers where kt: "kt = (key, timers)" by (cases kt)
  show ?case
    by (simp add: kt Cons.IH Let_def case_prod_unfold split: sum.splits)
qed

lemma plugin_loop_counters:
  "counter_metrics (snd (snd (plugin_loop X st i ts items))) = counter_metrics st"
proof (induction items arbitrary: st)
  case Nil
  show ?case by simp
next
  case (Cons km items)
  obtain key metric where km: "km = (key, metric)" by (cases km)
  show ?case
    by (simp add: km Cons.IH Let_def case_prod_unfold)
qed

lemma summary_flush_loop_counters:
  "counter_metrics (snd (summary_flush_loop st ts items)) = counter_metrics st"
proof (induction items arbitrary: st)
  case Nil
  show ?case by simp
next
  case (Cons x items)
  obtain name v d where x: "x = (name, v, d)" by (cases x)
  show ?case
    by (simp add: x Cons.IH Let_def case_prod_unfold)
qed

lemma summary_receive_loop_counters:
  "counter_metrics (snd (snd (summary_receive_loop st ts items))) = counter_metrics st"
proof (induction items arbitrary: st)
  case Nil
  show ?case by simp
next
  case (Cons x items)
  obtain mt d where x: "x = (mt, d)" by (cases x)
  show ?case
    by (simp add: x Cons.IH Let_def case_prod_unfold split: option.splits)
qed

lemma flush_metrics_summary_counters:
  "counter_metrics (snd (snd (flush_metrics_summary st n pm ts))) = counter_metrics st"
  by (simp add: flush_metrics_summary_def Let_def case_prod_unfold summary_receive_loop_counters
      summary_flush_loop_counters split: outcome.splits)



lemma flush_category_counters:
  "counter_metrics (snd (snd (snd (flush_category gen st))))
   = counter_metrics (snd (snd (gen (st\<lparr>time_calls := Suc (time_calls st)\<rparr>))))"
  by (simp add: flush_category_def read_clock_def Let_def case_prod_unfold split: outcome.splits)

lemma flush_category_outcome:
  "fst (snd (flush_category gen st))
   = fst (snd (gen (st\<lparr>time_calls := Suc (time_calls st)\<rparr>)))"
  by (simp add: flush_category_def read_clock_def Let_def case_prod_unfold split: outcome.splits)

lemma flush_counter_metrics_Returned':
  assumes "fst (snd (flush_counter_metrics st interval ts)) = Returned"
  shows "counter_metrics (snd (snd (flush_counter_metrics st interval ts))) =
           (if delete_idle_counters st then [] else map (\<lambda>(k, v). (k, 0)) (counter_metrics st))"
proof -
  obtain ys oc st' where e: "flush_counter_metrics st interval ts = (ys, oc, st')"
    by (cases "flush_counter_metrics st interval ts")
  with assms have "oc = Returned" by simp
  with e flush_counter_metrics_Returned [of st interval ts ys st'] show ?thesis by simp
qed

lemma flush_timer_metrics_counters:
  "counter_metrics (snd (snd (flush_timer_metrics st P ts))) = counter_metrics st"
  by (simp add: flush_timer_metrics_def timer_loop_counters)

lemma flush_gauge_metrics_counters:
  "counter_metrics (snd (snd (flush_gauge_metrics st ts))) = counter_metrics st"
  by (simp add: flush_gauge_metrics_def)

lemma flush_meter_metrics_counters:
  "counter_metrics (snd (snd (flush_meter_metrics X st ts))) = counter_metrics st"
  by (simp add: flush_meter_metrics_def)

lemma flush_plugin_metrics_counters:
  "counter_metrics (snd (snd (flush_plugin_metrics X st i ts))) = counter_metrics st"
  by (simp add: flush_plugin_metrics_def plugin_loop_counters)

lemma flush_counters:
  assumes "fst (snd (flush X st interval_ms percent)) = Returned"
  shows "counter_metrics (snd (snd (flush X st interval_ms percent))) =
           (if delete_idle_counters st then [] else map (\<lambda>(k, v). (k, 0)) (counter_metrics st))"
proof -
  let ?st0 = "st\<lparr>time_calls := Suc (time_calls st)\<rparr>"
  let ?g = "\<lambda>s. flush_counter_metrics s (interval_ms div 1000) (flush_timestamp st)"
  let ?c = "flush_category ?g ?st0"
  have r: "fst (snd ?c) = Returned"
    using assms
    by (simp add: flush_def read_clock_def flush_timestamp_def Let_def case_prod_unfold
        split: outcome.splits)
  have c: "counter_metrics (snd (snd (snd ?c))) =
           (if delete_idle_counters st then [] else map (\<lambda>(k, v). (k, 0)) (counter_metrics st))"
    using r flush_counter_metrics_Returned' [of "?st0\<lparr>time_calls := Suc (time_calls ?st0)\<rparr>"
        "interval_ms div 1000" "flush_timestamp st"]
    by (simp add: flush_category_counters flush_category_outcome)
  have "counter_metrics (snd (snd (flush X st interval_ms percent)))
        = counter_metrics (snd (snd (snd ?c)))"
    by (simp add: flush_def read_clock_def flush_timestamp_def Let_def case_prod_unfold
        flush_category_counters flush_timer_metrics_counters flush_gauge_metrics_counters
        flush_meter_metrics_counters flush_plugin_metrics_counters
        flush_metrics_summary_counters
        split: outcome.splits)
  with c show ?thesis by simp
qed

lemma float_10: "py_float ''10'' = Some 10" by (simp add: float_defs)

lemma process_a_10_c:
  "process X st ''a:10|c'' =
    record_processing
      (st\<lparr>time_calls := Suc (time_calls st),
          counter_metrics := dict_set ''a'' (counter_value st ''a'' + 10) (counter_metrics st)\<rparr>)
      ''c'' (time_function st (time_calls st))"
proof -
  have wf: "\<not> bad_framing ''a:10|c''" by (simp add: framing_defs)
  have f: "message_fields ''a:10|c'' = [''10'', ''c'']" by (simp add: framing_defs)
  have k: "message_key ''a:10|c'' = ''a''"
    by (simp add: message_key_def py_strip_def normalize_key_def is_space_def is_slash_def
        is_key_char_def)
  show ?thesis
    by (simp add: process_well_framed [OF wf] f k process_message_counter
        process_counter_two_fields [OF float_10] counter_value_def)
qed

lemmas dict_defs = dict_has_def dict_get_def dict_set_def setdefault_def

lemma one_counter_state:
  "process X (scenario_processor X del lw) ''a:10|c'' =
     (Returned,
      (scenario_processor X del lw)
        \<lparr>time_calls := 2, counter_metrics := [(''a'', 10)],
         process_timings := [(''c'', 0)], by_type := [(''c'', 1)]\<rparr>)"
  by (simp add: process_a_10_c record_processing_eq counter_value_def scenario_processor_def
      init_def dict_defs)

lemma py_int_1000: "py_int 1000 = 1000" by (simp add: py_int_def)

lemmas flush_eval = flush_def flush_category_def read_clock_def Let_def scenario_processor_def
  init_def py_int_1000 flush_counter_metrics_def counter_lines_def flush_timer_metrics_def
  flush_gauge_metrics_def flush_meter_metrics_def flush_plugin_metrics_def
  flush_metrics_summary_def dict_defs

lemma flush_one_counter:
  "flush X (snd (process X (scenario_processor X False False) ''a:10|c'')) 10000 90 =
    ([(''stats.a'', 1, 1000), (''stats_counts.a'', 10, 1000),
       (''statsd.numStats'', 1, 1000),
       (''statsd.flush.counter.count'', 1, 1000),
       (''statsd.flush.counter.duration'', 0, 1000),
       (''statsd.flush.timer.count'', 0, 1000),
       (''statsd.flush.timer.duration'', 0, 1000),
       (''statsd.flush.gauge.count'', 0, 1000),
       (''statsd.flush.gauge.duration'', 0, 1000),
       (''statsd.flush.meter.count'', 0, 1000),
       (''statsd.flush.meter.duration'', 0, 1000),
       (''statsd.flush.plugin.count'', 0, 1000),
       (''statsd.flush.plugin.duration'', 0, 1000),
       (''statsd.receive.c.count'', 1, 1000),
       (''statsd.receive.c.duration'', 0, 1000)],
     Returned,
     (scenario_processor X False False)
       \<lparr>time_calls := 13, counter_metrics := [(''a'', 0)],
        log := [Flushed 1 ''counter'' 0, Flushed 0 ''timer'' 0, Flushed 0 ''gauge'' 0,
                Flushed 0 ''meter'' 0, Flushed 0 ''plugin'' 0, Processing 1 ''c'' 0]\<rparr>)"
  by (simp only: one_counter_state snd_conv) (simp add: flush_eval)

lemma flush_one_counter_delete_idle:
  "fst (snd (flush X (snd (process X (scenario_processor X True False) ''a:10|c'')) 10000 90))
     = Returned
   \<and> counter_metrics
       (snd (snd (flush X (snd (process X (scenario_processor X True False) ''a:10|c'')) 10000 90)))
     = []"
  by (simp only: one_counter_state snd_conv) (simp add: flush_eval)

lemma flush_one_counter_lightweight:
  "fst (flush X (snd (process X (scenario_processor X False True) ''a:10|c'')) 10000 90) =
    [(''stats_counts.a'', 10, 1000),
       (''statsd.numStats'', 1, 1000),
       (''statsd.flush.counter.count'', 1, 1000),
       (''statsd.flush.counter.duration'', 0, 1000),
       (''statsd.flush.timer.count'', 0, 1000),
       (''statsd.flush.timer.duration'', 0, 1000),
       (''statsd.flush.gauge.count'', 0, 1000),
       (''statsd.flush.gauge.duration'', 0, 1000),
       (''statsd.flush.meter.count'', 0, 1000),
       (''statsd.flush.meter.duration'', 0, 1000),
       (''statsd.flush.plugin.count'', 0, 1000),
       (''statsd.flush.plugin.duration'', 0, 1000),
       (''statsd.receive.c.count'', 1, 1000),
       (''statsd.receive.c.duration'', 0, 1000)]"
  by (simp only: one_counter_state snd_conv) (simp add: flush_eval)


text \<open>
  An interval under 1000 ms: the division of integers gives 0 seconds, and the first
  counter makes the flush raise.
\<close>

lemma flush_one_counter_500:
  "flush X (snd (process X (scenario_processor X False False) ''a:10|c'')) 500 90 =
    ([], Raised ZeroDivisionError,
     (scenario_processor X False False)
        \<lparr>time_calls := 4, counter_metrics := [(''a'', 0)],
         process_timings := [(''c'', 0)], by_type := [(''c'', 1)]\<rparr>)"
  by (simp only: one_counter_state snd_conv) (simp add: flush_eval)

text \<open>
  Claim C4. When a flush has run to its end, every entry left in the counter map has
  value 0 (the keys are those it had before); with \<^verbatim>\<open>delete_idle_counters\<close> the counter
  map is empty instead.
\<close>

theorem counters_zero_after_flush:
  assumes "flush X st interval_ms percent = (out, Returned, st')"
  shows "counter_metrics st' =
           (if delete_idle_counters st then [] else map (\<lambda>(k, v). (k, 0)) (counter_metrics st))
         \<and> list_all (\<lambda>(k, v). v = 0) (counter_metrics st')"
proof -
  from assms have r: "fst (snd (flush X st interval_ms percent)) = Returned"
    and s: "snd (snd (flush X st interval_ms percent)) = st'" by simp_all
  from flush_counters [OF r] s have c: "counter_metrics st' =
      (if delete_idle_counters st then [] else map (\<lambda>(k, v). (k, 0)) (counter_metrics st))"
    by simp
  then have "list_all (\<lambda>(k, v). v = 0) (counter_metrics st')"
    by (simp add: list_all_iff case_prod_unfold)
  with c show ?thesis by simp
qed

theorem counters_zero_after_flush_witness:
  "\<forall>X. fst (snd (flush X (snd (process X (scenario_processor X False False) ''a:10|c'')) 10000 90))
          = Returned
     \<and> counter_metrics
          (snd (snd (flush X (snd (process X (scenario_processor X False False) ''a:10|c''))
                      10000 90)))
          = [(''a'', 0)]
     \<and> fst (snd (flush X (snd (process X (scenario_processor X True False) ''a:10|c'')) 10000 90))
          = Returned
     \<and> counter_metrics
          (snd (snd (flush X (snd (process X (scenario_processor X True False) ''a:10|c''))
                      10000 90)))
          = []"
proof
  fix X
  let ?s = "snd (process X (scenario_processor X False False) ''a:10|c'')"
  let ?d = "snd (process X (scenario_processor X True False) ''a:10|c'')"
  have rs: "fst (snd (flush X ?s 10000 90)) = Returned"
    by (simp add: flush_one_counter)
  have rd: "fst (snd (flush X ?d 10000 90)) = Returned"
    by (simp add: flush_one_counter_delete_idle)
  have es: "flush X ?s 10000 90
            = (fst (flush X ?s 10000 90), Returned, snd (snd (flush X ?s 10000 90)))"
    using rs by (cases "flush X ?s 10000 90") simp
  have ed: "flush X ?d 10000 90
            = (fst (flush X ?d 10000 90), Returned, snd (snd (flush X ?d 10000 90)))"
    using rd by (cases "flush X ?d 10000 90") simp
  have cs: "counter_metrics ?s = [(''a'', 10)]" "\<not> delete_idle_counters ?s"
    by (simp_all only: one_counter_state snd_conv)
      (simp_all add: scenario_processor_def init_def)
  have cd: "delete_idle_counters ?d"
    by (simp only: one_counter_state snd_conv) (simp add: scenario_processor_def init_def)
  show "fst (snd (flush X ?s 10000 90)) = Returned
     \<and> counter_metrics (snd (snd (flush X ?s 10000 90))) = [(''a'', 0)]
     \<and> fst (snd (flush X ?d 10000 90)) = Returned
     \<and> counter_metrics (snd (snd (flush X ?d 10000 90))) = []"
    using counters_zero_after_flush [OF es] counters_zero_after_flush [OF ed] rs rd cs cd
    by simp
qed

text \<open>
  Claim C9. In lightweight mode a counter flush yields, for every key, the count line
  alone: \<^verbatim>\<open>output[1:2]\<close>. In the legacy namespace that line is
  \<^verbatim>\<open>(stats_counts.<key>, count, ts)\<close>, and no line named \<^verbatim>\<open>stats.<key>\<close> is yielded; a
  counter map holding 10 under \<^verbatim>\<open>a\<close> yields the one line \<^verbatim>\<open>stats_counts.a 10 ts\<close>. (With
  an interval of 0 the division raises before anything is yielded.)
\<close>

theorem lightweight_counter_flush:
  "(lightweight_mode st \<longrightarrow>
      fst (flush_counter_metrics st interval ts) =
        (if interval = 0 then []
         else map (\<lambda>(key, c).
                [(count_prefix st @ key @ (if legacy_namespace st then '''' else ''.count''),
                  c, ts)])
              (counter_metrics st)))
   \<and> (lightweight_mode st \<and> legacy_prefixes st \<longrightarrow>
        (\<forall>key v. (''stats.'' @ key, v, ts)
                   \<notin> set (concat (fst (flush_counter_metrics st interval ts)))))
   \<and> (lightweight_mode st \<and> legacy_prefixes st \<and> counter_metrics st = [(''a'', 10)]
        \<and> interval \<noteq> 0 \<longrightarrow>
        fst (flush_counter_metrics st interval ts) = [[(''stats_counts.a'', 10, ts)]])"
proof -
  have a: "fst (flush_counter_metrics st interval ts) =
        (if interval = 0 then []
         else map (\<lambda>(key, c).
                [(count_prefix st @ key @ (if legacy_namespace st then '''' else ''.count''),
                  c, ts)])
              (counter_metrics st))" if "lightweight_mode st"
  proof (cases "interval = 0")
    case True
    then show ?thesis by (simp add: flush_counter_metrics_zero_interval)
  next
    case False
    with that show ?thesis
      by (simp add: flush_counter_metrics_eq counter_lines_def)
  qed
  have b: "(''stats.'' @ key, v, ts) \<notin> set (concat (fst (flush_counter_metrics st interval ts)))"
    if "lightweight_mode st" "legacy_prefixes st" for key v
    using that a [OF that(1)] by (auto simp: legacy_prefixes_def)
  have c: "fst (flush_counter_metrics st interval ts) = [[(''stats_counts.a'', 10, ts)]]"
    if "lightweight_mode st" "legacy_prefixes st" "counter_metrics st = [(''a'', 10)]"
      "interval \<noteq> 0"
    using that a [OF that(1)] by (simp add: legacy_prefixes_def)
  from a b c show ?thesis by blast
qed

theorem lightweight_counter_flush_witness:
  "\<forall>X. fst (flush_counter_metrics
              (snd (process X (scenario_processor X False True) ''a:10|c'')) 10 1000)
        = [[(''stats_counts.a'', 10, 1000)]]
     \<and> (''stats.a'', 1, 1000)
        \<notin> set (concat (fst (flush_counter_metrics
              (snd (process X (scenario_processor X False True) ''a:10|c'')) 10 1000)))
     \<and> take 1 (fst (flush X (snd (process X (scenario_processor X False True) ''a:10|c''))
                     10000 90))
        = [(''stats_counts.a'', 10, 1000)]"
proof
  fix X
  let ?s = "snd (process X (scenario_processor X False True) ''a:10|c'')"
  have l: "lightweight_mode ?s" "legacy_prefixes ?s" "counter_metrics ?s = [(''a'', 10)]"
    "legacy_namespace ?s" "count_prefix ?s = ''stats_counts.''"
    by (simp_all only: one_counter_state snd_conv)
      (simp_all add: scenario_processor_def init_def legacy_prefixes_def)
  have i: "(10::int) \<noteq> 0" by simp
  show "fst (flush_counter_metrics ?s 10 1000) = [[(''stats_counts.a'', 10, 1000)]]
     \<and> (''stats.a'', 1, 1000) \<notin> set (concat (fst (flush_counter_metrics ?s 10 1000)))
     \<and> take 1 (fst (flush X ?s 10000 90)) = [(''stats_counts.a'', 10, 1000)]"
    using lightweight_counter_flush [of ?s 10 1000] l i
    by (simp add: flush_one_counter_lightweight)
qed







subsection \<open>Flushing the timers\<close>












lemma float_250: "py_float ''250'' = Some 250" by (simp add: float_defs)
lemma float_750: "py_float ''750'' = Some 750" by (simp add: float_defs)

lemma process_timer_message:
  assumes wf: "\<not> bad_framing m" and f: "message_fields m = [v, ''ms'']"
    and v: "py_float v = Some d"
    and k: "message_key m = key"
  shows "process X st m =
    record_processing
      (st\<lparr>time_calls := Suc (time_calls st),
          timer_metrics :=
            dict_set key
              ((case dict_get (timer_metrics st) key of None \<Rightarrow> [] | Some ds \<Rightarrow> ds) @ [d])
              (timer_metrics st)\<rparr>)
      ''ms'' (time_function st (time_calls st))"
  by (simp add: process_well_framed [OF wf] f k process_message_timer process_timer_metric_def v
      compose_timer_metric_eq)

lemma process_orders_250:
  "process X st ''orders:250|ms'' =
    record_processing
      (st\<lparr>time_calls := Suc (time_calls st),
          timer_metrics :=
            dict_set ''orders''
              ((case dict_get (timer_metrics st) ''orders'' of None \<Rightarrow> [] | Some ds \<Rightarrow> ds)
               @ [250])
              (timer_metrics st)\<rparr>)
      ''ms'' (time_function st (time_calls st))"
  by (rule process_timer_message [OF _ _ float_250])
    (simp_all add: framing_defs message_key_def normalize_key_def is_slash_def is_key_char_def)

lemma process_orders_750:
  "process X st ''orders:750|ms'' =
    record_processing
      (st\<lparr>time_calls := Suc (time_calls st),
          timer_metrics :=
            dict_set ''orders''
              ((case dict_get (timer_metrics st) ''orders'' of None \<Rightarrow> [] | Some ds \<Rightarrow> ds)
               @ [750])
              (timer_metrics st)\<rparr>)
      ''ms'' (time_function st (time_calls st))"
  by (rule process_timer_message [OF _ _ float_750])
    (simp_all add: framing_defs message_key_def normalize_key_def is_slash_def is_key_char_def)

lemma eight_orders_state:
  "process_all X (scenario_processor X False False)
     [''orders:250|ms'', ''orders:250|ms'', ''orders:250|ms'', ''orders:250|ms'',
      ''orders:750|ms'', ''orders:750|ms'', ''orders:750|ms'', ''orders:750|ms''] =
   (Returned,
    (scenario_processor X False False)
      \<lparr>time_calls := 16,
       process_timings := [(''ms'', 0)], by_type := [(''ms'', 8)],
       timer_metrics := [(''orders'', [250, 250, 250, 250, 750, 750, 750, 750])]\<rparr>)"
proof -
  let ?i = "scenario_processor X False False"
  let ?S = "\<lambda>n xs c. ?i\<lparr>time_calls := n, process_timings := [(''ms'', 0)],
                          by_type := [(''ms'', c)], timer_metrics := [(''orders'', xs)]\<rparr>"
  have clk: "time_function ?i = (\<lambda>_. 1000)" "time_calls ?i = 0" "timer_metrics ?i = []"
    "process_timings ?i = []" "by_type ?i = []"
    by (simp_all add: scenario_processor_def init_def)
  have s0: "process X ?i ''orders:250|ms'' = (Returned, ?S 2 [250] 1)"
    by (simp add: process_orders_250 record_processing_eq clk dict_defs)
  have s250: "process X (?S n xs c) ''orders:250|ms'' = (Returned, ?S (n + 2) (xs @ [250]) (c + 1))"
    for n xs c
    by (simp add: process_orders_250 record_processing_eq clk dict_defs)
  have s750: "process X (?S n xs c) ''orders:750|ms'' = (Returned, ?S (n + 2) (xs @ [750]) (c + 1))"
    for n xs c
    by (simp add: process_orders_750 record_processing_eq clk dict_defs)
  have "process_all X ?i
     [''orders:250|ms'', ''orders:250|ms'', ''orders:250|ms'', ''orders:250|ms'',
      ''orders:750|ms'', ''orders:750|ms'', ''orders:750|ms'', ''orders:750|ms'']
     = (Returned, ?S (2 + 2 + 2 + 2 + 2 + 2 + 2 + 2)
                     ([250] @ [250] @ [250] @ [250] @ [750] @ [750] @ [750] @ [750])
                     (1 + 1 + 1 + 1 + 1 + 1 + 1 + 1))"
    by (simp only: process_all.simps s0 s250 s750 prod.case outcome.case append_assoc)
  then show ?thesis by simp
qed

lemmas timer_eval = compute_timer_stats_def trim_index_def py_round_def py_slice_to_def
  timer_lines_def timer_items_def string_of_int_def

lemma flush_eight_orders:
  "flush X (snd (process_all X (scenario_processor X False False)
     [''orders:250|ms'', ''orders:250|ms'', ''orders:250|ms'', ''orders:250|ms'',
      ''orders:750|ms'', ''orders:750|ms'', ''orders:750|ms'', ''orders:750|ms''])) 10000 90 =
    ([(''stats.timers.orders.count'', 8, 1000),
      (''stats.timers.orders.lower'', 250, 1000),
      (''stats.timers.orders.mean'', 3250 / 7, 1000),
      (''stats.timers.orders.upper'', 750, 1000),
      (''stats.timers.orders.upper_90'', 750, 1000),
      (''statsd.numStats'', 1, 1000),
      (''statsd.flush.counter.count'', 0, 1000),
      (''statsd.flush.counter.duration'', 0, 1000),
      (''statsd.flush.timer.count'', 1, 1000),
      (''statsd.flush.timer.duration'', 0, 1000),
      (''statsd.flush.gauge.count'', 0, 1000),
      (''statsd.flush.gauge.duration'', 0, 1000),
      (''statsd.flush.meter.count'', 0, 1000),
      (''statsd.flush.meter.duration'', 0, 1000),
      (''statsd.flush.plugin.count'', 0, 1000),
      (''statsd.flush.plugin.duration'', 0, 1000),
      (''statsd.receive.ms.count'', 8, 1000),
      (''statsd.receive.ms.duration'', 0, 1000)],
     Returned,
     (scenario_processor X False False)
       \<lparr>time_calls := 27, timer_metrics := [(''orders'', [])],
        log := [Flushed 0 ''counter'' 0, Flushed 1 ''timer'' 0, Flushed 0 ''gauge'' 0,
                Flushed 0 ''meter'' 0, Flushed 0 ''plugin'' 0, Processing 8 ''ms'' 0]\<rparr>)"
  by (simp only: eight_orders_state snd_conv) (simp add: flush_eval timer_eval)

text \<open>
  Claim C2, amended. After \<^verbatim>\<open>"orders:250|ms"\<close> four times and \<^verbatim>\<open>"orders:750|ms"\<close> four
  times, a flush with threshold 90 at timestamp 1000 in the legacy namespace returns,
  and its timer lines are count 8, lower 250, mean 3250/7 (the mean of the seven lowest
  samples), upper 750 and upper_90 750; every line of the flush has timestamp 1000.
\<close>

theorem orders_timer_flush:
  "\<forall>X. filter (\<lambda>(name, v, ts). take 13 name = ''stats.timers.'')
          (fst (flush X (snd (process_all X (scenario_processor X False False)
             [''orders:250|ms'', ''orders:250|ms'', ''orders:250|ms'', ''orders:250|ms'',
              ''orders:750|ms'', ''orders:750|ms'', ''orders:750|ms'', ''orders:750|ms'']))
             10000 90))
        = [(''stats.timers.orders.count'', 8, 1000),
           (''stats.timers.orders.lower'', 250, 1000),
           (''stats.timers.orders.mean'', 3250 / 7, 1000),
           (''stats.timers.orders.upper'', 750, 1000),
           (''stats.timers.orders.upper_90'', 750, 1000)]
     \<and> list_all (\<lambda>(name, v, ts). ts = 1000)
          (fst (flush X (snd (process_all X (scenario_processor X False False)
             [''orders:250|ms'', ''orders:250|ms'', ''orders:250|ms'', ''orders:250|ms'',
              ''orders:750|ms'', ''orders:750|ms'', ''orders:750|ms'', ''orders:750|ms'']))
             10000 90))
     \<and> fst (snd (flush X (snd (process_all X (scenario_processor X False False)
             [''orders:250|ms'', ''orders:250|ms'', ''orders:250|ms'', ''orders:250|ms'',
              ''orders:750|ms'', ''orders:750|ms'', ''orders:750|ms'', ''orders:750|ms'']))
             10000 90))
        = Returned"
  by (simp only: flush_eight_orders fst_conv snd_conv) simp

text \<open>
  The claim as first stated fails: no line gives the mean as 437.5; the line of the
  mean carries \<open>(250 * 4 + 750 * 3) / 7\<close>.
\<close>

theorem orders_mean_counterexample:
  "\<forall>X. (''stats.timers.orders.mean'', 875 / 2, 1000)
        \<notin> set (fst (flush X (snd (process_all X (scenario_processor X False False)
             [''orders:250|ms'', ''orders:250|ms'', ''orders:250|ms'', ''orders:250|ms'',
              ''orders:750|ms'', ''orders:750|ms'', ''orders:750|ms'', ''orders:750|ms'']))
             10000 90))
     \<and> (''stats.timers.orders.mean'', (250 * 4 + 750 * 3) / 7, 1000)
        \<in> set (fst (flush X (snd (process_all X (scenario_processor X False False)
             [''orders:250|ms'', ''orders:250|ms'', ''orders:250|ms'', ''orders:250|ms'',
              ''orders:750|ms'', ''orders:750|ms'', ''orders:750|ms'', ''orders:750|ms'']))
             10000 90))"
  by (simp only: flush_eight_orders fst_conv) simp



end
